theory Spec2Isabelle
  imports Main "HOL-Library.AList"
begin

section \<open>JavaScript values and string helpers\<close>

text \<open>
  The server (\<^verbatim>\<open>src/puppeteer/index.ts\<close>) is embedded by explicit state passing.
  A thrown \<^verbatim>\<open>Error\<close> is the left injection of a sum and carries the error's
  \<^verbatim>\<open>message\<close>; a rejected promise is the same value. A field of \<^verbatim>\<open>args\<close> that the
  caller may leave out is an option, \<open>None\<close> standing for \<^verbatim>\<open>undefined\<close>.
\<close>

type_synonym browser_handle = nat
type_synonym page_handle = nat
type_synonym element_handle = nat

datatype json =
    JUndefined
  | JNull
  | JBool bool
  | JNum int
  | JStr string
  | JArr "json list"
  | JObj "(string \<times> json) list"

text \<open>Interpolation \<^verbatim>\<open>${x}\<close> of a possibly undefined string in a template literal.\<close>

definition js_str :: "string option \<Rightarrow> string" where
  "js_str x = (case x of None \<Rightarrow> ''undefined'' | Some v \<Rightarrow> v)"

text \<open>Truthiness of a possibly undefined string: \<^verbatim>\<open>undefined\<close> and \<^verbatim>\<open>""\<close> are falsy.\<close>

definition truthy :: "string option \<Rightarrow> bool" where
  "truthy x = (case x of None \<Rightarrow> False | Some v \<Rightarrow> v \<noteq> [])"

definition json_of :: "string option \<Rightarrow> json" where
  "json_of x = (case x of None \<Rightarrow> JUndefined | Some v \<Rightarrow> JStr v)"

text \<open>
  Decimal rendering of a number in a template literal. Numbers are embedded as
  integers, and the rendering is JavaScript's for integers below \<^verbatim>\<open>1e21\<close> in
  magnitude; from there on JavaScript prints an exponent, which is not modelled.
\<close>

fun digit_chars :: "nat \<Rightarrow> string" where
  "digit_chars n =
     (if n < 10 then [''0123456789'' ! n]
      else digit_chars (n div 10) @ [''0123456789'' ! (n mod 10)])"

declare digit_chars.simps [simp del]

definition js_number :: "int \<Rightarrow> string" where
  "js_number i = (if i < 0 then ''-'' @ digit_chars (nat (- i)) else digit_chars (nat i))"

text \<open>\<^verbatim>\<open>Array.prototype.join\<close>.\<close>

fun join_with :: "string \<Rightarrow> string list \<Rightarrow> string" where
  "join_with sep [] = []"
| "join_with sep [x] = x"
| "join_with sep (x # y # ys) = x @ sep @ join_with sep (y # ys)"

text \<open>\<^verbatim>\<open>String.prototype.startsWith\<close>.\<close>

definition startsWith :: "string \<Rightarrow> string \<Rightarrow> bool" where
  "startsWith s p = (take (length p) s = p)"

text \<open>
  \<^verbatim>\<open>String.prototype.split\<close> with a separator string. The source only splits on
  non-empty separators; on an empty one this function returns the string whole.
\<close>

function split_on :: "string \<Rightarrow> string \<Rightarrow> string list" where
  "split_on sep [] = [[]]"
| "split_on sep (c # cs) =
     (if sep \<noteq> [] \<and> take (length sep) (c # cs) = sep
      then [] # split_on sep (drop (length sep) (c # cs))
      else (case split_on sep cs of
              [] \<Rightarrow> [[c]]
            | w # ws \<Rightarrow> (c # w) # ws))"
  by pat_completeness auto
termination
  by (relation "measure (\<lambda>(sep, s). length s)") auto

declare split_on.simps(2) [simp del]

definition newline :: string where
  "newline = [CHR 0x0A]"

definition apostrophe :: string where
  "apostrophe = [CHR 0x27]"

text \<open>
  The message of the \<^verbatim>\<open>TypeError\<close> that V8 throws when a method \<open>m\<close> is read from
  \<^verbatim>\<open>undefined\<close>.
\<close>

definition undefined_read :: "string \<Rightarrow> string" where
  "undefined_read m =
     ''Cannot read properties of undefined (reading '' @ apostrophe @ m @ apostrophe @ '')''"

section \<open>The external collaborators\<close>

text \<open>
  Every request the server sends to the browser provider (through puppeteer) or to the
  collaboration provider (through the Notion client) is recorded, in the order the
  requests settle.
\<close>

datatype call =
    Connect
  | Pages browser_handle
  | Goto page_handle string
  | SetViewport page_handle int int
  | Query page_handle string
  | ElementScreenshot element_handle
  | PageScreenshot page_handle
  | Click page_handle "string option"
  | WaitForSelector page_handle "string option"
  | TypeInto page_handle "string option" string
  | EvalScript page_handle string
  | EvalGetJson page_handle "string option"
  | EvalContent page_handle "string option"
  | EvalInnerText page_handle
  | BlocksChildrenList string
  | BlocksChildrenAppend string "string option"
  | CommentsList string
  | CommentsCreate string string
  | PagesCreate string "(string \<times> json) list" "string option"

type_synonym history = "call list"

text \<open>
  The collaborators are outside the repository, so their answers are a parameter: each
  field gives the outcome of one kind of request, \<open>Inl msg\<close> when the request throws,
  as a function of the requests made so far and of the request's arguments. The
  functions that \<^verbatim>\<open>page.evaluate\<close> ships to the page run inside the provider and are
  represented by their outcome. \<open>JSON_stringify\<close> is \<^verbatim>\<open>JSON.stringify(v, null, 2)\<close> as it
  appears inside a template literal; the last two fields are the configuration read
  from the process environment.
\<close>

record env =
  puppeteer_connect :: "history \<Rightarrow> string + browser_handle"
  browser_pages :: "history \<Rightarrow> browser_handle \<Rightarrow> string + page_handle list"
  page_goto :: "history \<Rightarrow> page_handle \<Rightarrow> string \<Rightarrow> string + unit"
  page_setViewport :: "history \<Rightarrow> page_handle \<Rightarrow> int \<Rightarrow> int \<Rightarrow> string + unit"
  page_query :: "history \<Rightarrow> page_handle \<Rightarrow> string \<Rightarrow> string + element_handle option"
  element_screenshot :: "history \<Rightarrow> element_handle \<Rightarrow> string + string"
  page_screenshot :: "history \<Rightarrow> page_handle \<Rightarrow> string + string"
  page_click :: "history \<Rightarrow> page_handle \<Rightarrow> string option \<Rightarrow> string + unit"
  page_waitForSelector :: "history \<Rightarrow> page_handle \<Rightarrow> string option \<Rightarrow> string + unit"
  page_type :: "history \<Rightarrow> page_handle \<Rightarrow> string option \<Rightarrow> string \<Rightarrow> string + unit"
  evaluate_script :: "history \<Rightarrow> page_handle \<Rightarrow> string \<Rightarrow> string + (json \<times> string list)"
  evaluate_get_json :: "history \<Rightarrow> page_handle \<Rightarrow> string option \<Rightarrow> string + json"
  evaluate_content :: "history \<Rightarrow> page_handle \<Rightarrow> string option \<Rightarrow> string + string list"
  evaluate_innerText :: "history \<Rightarrow> page_handle \<Rightarrow> string + string"
  blocks_children_list :: "history \<Rightarrow> string \<Rightarrow> string + json"
  blocks_children_append :: "history \<Rightarrow> string \<Rightarrow> string option \<Rightarrow> string + unit"
  comments_list :: "history \<Rightarrow> string \<Rightarrow> string + json"
  comments_create :: "history \<Rightarrow> string \<Rightarrow> string \<Rightarrow> string + unit"
  pages_create ::
    "history \<Rightarrow> string \<Rightarrow> (string \<times> json) list \<Rightarrow> string option \<Rightarrow> string + string"
  JSON_stringify :: "json \<Rightarrow> string"
  NOTION_PAGE_URL :: string
  NOTION_DATABASE_ID :: string

section \<open>Global state\<close>

record session =
  browser :: browser_handle
  page :: "page_handle option"

datatype notification =
    CloudMessage string
  | ResourcesListChanged

text \<open>
  \<open>browsers\<close>, \<open>consoleLogs\<close> and \<open>screenshots\<close> are the module's globals; the two maps
  are association lists in insertion order, written with \<^const>\<open>AList.update\<close> as
  \<^verbatim>\<open>Map.prototype.set\<close> writes them (an existing key keeps its place). The other
  fields record what the server did to the outside: the notifications it sent, the
  lines it printed, the requests it made, the console subscriptions it installed (page
  and the session identifier the listener closes over) and the viewport it last set
  on each page.
\<close>

record state =
  browsers :: "(string option \<times> session) list"
  consoleLogs :: "string list"
  screenshots :: "(string \<times> string) list"
  notifications :: "notification list"
  stdout :: "string list"
  calls :: history
  listeners :: "(page_handle \<times> string option) list"
  viewports :: "(page_handle \<times> int \<times> int) list"

definition initial_state :: state where
  "initial_state =
     \<lparr>browsers = [], consoleLogs = [], screenshots = [], notifications = [], stdout = [],
      calls = [], listeners = [], viewports = []\<rparr>"

definition issue :: "call \<Rightarrow> state \<Rightarrow> state" where
  "issue c s = s\<lparr>calls := calls s @ [c]\<rparr>"

section \<open>Helper functions\<close>

definition alnum :: "char \<Rightarrow> bool" where
  "alnum c = (c \<in> set ''abcdefghijklmnopqrstuvwxyzABCDEFGHIJKLMNOPQRSTUVWXYZ0123456789'')"

text \<open>\<open>n\<close> characters of the class \<^verbatim>\<open>[a-zA-Z0-9]\<close>, and what follows them.\<close>

fun take_alnum :: "nat \<Rightarrow> string \<Rightarrow> (string \<times> string) option" where
  "take_alnum 0 s = Some ([], s)"
| "take_alnum (Suc n) [] = None"
| "take_alnum (Suc n) (c # cs) =
     (if alnum c
      then (case take_alnum n cs of None \<Rightarrow> None | Some (w, r) \<Rightarrow> Some (c # w, r))
      else None)"

text \<open>The optional dash \<^verbatim>\<open>-?\<close>: a dash is not in the class, so taking it is forced.\<close>

definition skip_dash :: "string \<Rightarrow> string" where
  "skip_dash s = (case s of [] \<Rightarrow> [] | c # cs \<Rightarrow> if c = CHR ''-'' then cs else c # cs)"

text \<open>
  A match of the page-id pattern at the head of the string, with its dashes removed:
  groups of 8, 4, 4, 4 and 12 characters.
\<close>

definition match_page_id :: "string \<Rightarrow> string option" where
  "match_page_id s =
     (case take_alnum 8 s of
        None \<Rightarrow> None
      | Some (g1, r1) \<Rightarrow>
          (case take_alnum 4 (skip_dash r1) of
             None \<Rightarrow> None
           | Some (g2, r2) \<Rightarrow>
               (case take_alnum 4 (skip_dash r2) of
                  None \<Rightarrow> None
                | Some (g3, r3) \<Rightarrow>
                    (case take_alnum 4 (skip_dash r3) of
                       None \<Rightarrow> None
                     | Some (g4, r4) \<Rightarrow>
                         (case take_alnum 12 (skip_dash r4) of
                            None \<Rightarrow> None
                          | Some (g5, r5) \<Rightarrow> Some (g1 @ g2 @ g3 @ g4 @ g5))))))"

fun extractNotionPageId :: "string \<Rightarrow> string + string" where
  "extractNotionPageId [] =
     (case match_page_id [] of
        Some i \<Rightarrow> Inr i
      | None \<Rightarrow> Inl ''Could not extract page ID from Notion URL'')"
| "extractNotionPageId (c # cs) =
     (case match_page_id (c # cs) of
        Some i \<Rightarrow> Inr i
      | None \<Rightarrow> extractNotionPageId cs)"

text \<open>
  \<^verbatim>\<open>createNewBrowserSession\<close>: connect, take the first page, store the pair, subscribe
  to the page's console events. The pair is stored before the subscription, so a
  connection without pages leaves a session whose page is \<^verbatim>\<open>undefined\<close> behind and
  throws.
\<close>

definition createNewBrowserSession ::
  "env \<Rightarrow> string option \<Rightarrow> state \<Rightarrow> (string + session) \<times> state" where
  "createNewBrowserSession E sessionId s =
     (let s1 = issue Connect s in
      case puppeteer_connect E (calls s) of
        Inl e \<Rightarrow> (Inl e, s1)
      | Inr b \<Rightarrow>
          (let s2 = issue (Pages b) s1 in
           case browser_pages E (calls s1) b of
             Inl e \<Rightarrow> (Inl e, s2)
           | Inr ps \<Rightarrow>
               (let pg = (case ps of [] \<Rightarrow> None | p # _ \<Rightarrow> Some p);
                    sess = \<lparr>browser = b, page = pg\<rparr>;
                    s3 = s2\<lparr>browsers := AList.update sessionId sess (browsers s2)\<rparr>
                in case pg of
                     None \<Rightarrow> (Inl (undefined_read ''on''), s3)
                   | Some p \<Rightarrow> (Inr sess, s3\<lparr>listeners := listeners s3 @ [(p, sessionId)]\<rparr>))))"

text \<open>
  The listener that \<^verbatim>\<open>createNewBrowserSession\<close> installs, run on one console message
  with type \<open>ty\<close> and text \<open>txt\<close>.
\<close>

definition logEntry :: "string option \<Rightarrow> string \<Rightarrow> string \<Rightarrow> string" where
  "logEntry sessionId ty txt = ''[Session '' @ js_str sessionId @ '']['' @ ty @ ''] '' @ txt"

definition consoleListener :: "string option \<Rightarrow> string \<Rightarrow> string \<Rightarrow> state \<Rightarrow> state" where
  "consoleListener sessionId ty txt s =
     s\<lparr>consoleLogs := consoleLogs s @ [logEntry sessionId ty txt],
       notifications := notifications s @ [CloudMessage (logEntry sessionId ty txt)]\<rparr>"

text \<open>A page emits a console event: its listeners run in the order they subscribed.\<close>

definition emitConsole :: "page_handle \<Rightarrow> string \<Rightarrow> string \<Rightarrow> state \<Rightarrow> state" where
  "emitConsole p ty txt s =
     fold (\<lambda>l t. if fst l = p then consoleListener (snd l) ty txt t else t) (listeners s) s"

section \<open>Tool definitions\<close>

record tool =
  tool_name :: string
  required :: "string list"

definition TOOLS :: "tool list" where
  "TOOLS =
     [\<lparr>tool_name = ''puppeteer_create_session'', required = []\<rparr>,
      \<lparr>tool_name = ''puppeteer_navigate'', required = [''url'']\<rparr>,
      \<lparr>tool_name = ''puppeteer_screenshot'', required = [''name'']\<rparr>,
      \<lparr>tool_name = ''puppeteer_click'', required = [''selector'']\<rparr>,
      \<lparr>tool_name = ''puppeteer_fill'', required = [''selector'', ''value'']\<rparr>,
      \<lparr>tool_name = ''puppeteer_evaluate'', required = [''script'']\<rparr>,
      \<lparr>tool_name = ''puppeteer_get_content'', required = []\<rparr>,
      \<lparr>tool_name = ''puppeteer_parallel_sessions'', required = [''sessions'']\<rparr>,
      \<lparr>tool_name = ''notion_read_page'', required = []\<rparr>,
      \<lparr>tool_name = ''notion_update_page'', required = [''pageId'', ''content'']\<rparr>,
      \<lparr>tool_name = ''notion_append_content'', required = [''pageId'', ''content'']\<rparr>,
      \<lparr>tool_name = ''notion_read_comments'', required = [''pageId'']\<rparr>,
      \<lparr>tool_name = ''notion_add_comment'', required = [''pageId'', ''comment'']\<rparr>,
      \<lparr>tool_name = ''notion_add_to_database'', required = [''title'']\<rparr>]"

text \<open>The handler of \<^verbatim>\<open>ListToolsRequestSchema\<close>.\<close>

definition listTools :: "tool list" where
  "listTools = TOOLS"

section \<open>Tool handler\<close>

text \<open>
  The argument object. The fields that every schema using them marks as required are
  present; \<^verbatim>\<open>sessionId\<close>, which no schema declares, and the fields that some schema
  leaves optional may be \<^verbatim>\<open>undefined\<close>.
\<close>

record session_item =
  item_id :: "string option"
  item_url :: string

record args =
  arg_sessionId :: "string option"
  arg_url :: string
  arg_name :: string
  arg_selector :: "string option"
  arg_width :: "int option"
  arg_height :: "int option"
  arg_value :: string
  arg_script :: string
  arg_sessions :: "session_item list"
  arg_pageUrl :: "string option"
  arg_pageId :: string
  arg_content :: "string option"
  arg_comment :: string
  arg_databaseId :: "string option"
  arg_title :: string
  arg_tags :: "string list option"
  arg_properties :: "(string \<times> json) list option"

datatype content_item =
    TextContent string
  | ImageContent string string

record toolResult =
  content :: "content_item list"
  isError :: bool

definition text_result :: "string \<Rightarrow> bool \<Rightarrow> toolResult" where
  "text_result t e = \<lparr>content = [TextContent t], isError = e\<rparr>"

text \<open>
  \<^verbatim>\<open>try { ... } catch (error) { return ... }\<close> around a body whose handler builds the
  text of a failure result from the message; the state the body reached is kept.
\<close>

definition try_catch ::
  "(string + toolResult) \<times> state \<Rightarrow> (string \<Rightarrow> string) \<Rightarrow> (string + toolResult) \<times> state" where
  "try_catch body handler =
     (case body of
        (Inl e, s) \<Rightarrow> (Inr (text_result (handler e) True), s)
      | (Inr r, s) \<Rightarrow> (Inr r, s))"

text \<open>
  A method \<open>m\<close> called on \<^verbatim>\<open>defaultSession!.page\<close>: the read throws when the stored page
  is \<^verbatim>\<open>undefined\<close>.
\<close>

definition on_page ::
  "session \<Rightarrow> string \<Rightarrow> (page_handle \<Rightarrow> (string + 'a) \<times> state) \<Rightarrow> state \<Rightarrow> (string + 'a) \<times> state"
  where
  "on_page sess m f s =
     (case page sess of None \<Rightarrow> (Inl (undefined_read m), s) | Some p \<Rightarrow> f p)"

text \<open>
  The default session of a call: the stored pair, or a new session. The bulk tool
  has none.
\<close>

definition defaultSession ::
  "env \<Rightarrow> string \<Rightarrow> args \<Rightarrow> state \<Rightarrow> (string + session option) \<times> state" where
  "defaultSession E name a s =
     (if name \<noteq> ''puppeteer_parallel_sessions'' then
        (case map_of (browsers s) (arg_sessionId a) of
           Some sess \<Rightarrow> (Inr (Some sess), s)
         | None \<Rightarrow>
             (case createNewBrowserSession E (arg_sessionId a) s of
                (Inl e, s') \<Rightarrow> (Inl e, s')
              | (Inr sess, s') \<Rightarrow> (Inr (Some sess), s')))
      else (Inr None, s))"

subsection \<open>Browser tools\<close>

definition puppeteer_create_session ::
  "env \<Rightarrow> args \<Rightarrow> state \<Rightarrow> (string + toolResult) \<times> state" where
  "puppeteer_create_session E a s =
     try_catch
       (case createNewBrowserSession E (arg_sessionId a) s of
          (Inl e, s') \<Rightarrow> (Inl e, s')
        | (Inr _, s') \<Rightarrow> (Inr (text_result ''Created new browser session'' False), s'))
       (\<lambda>e. ''Failed to create browser session: '' @ e)"

definition puppeteer_navigate ::
  "env \<Rightarrow> session \<Rightarrow> args \<Rightarrow> state \<Rightarrow> (string + toolResult) \<times> state" where
  "puppeteer_navigate E sess a s =
     on_page sess ''goto''
       (\<lambda>p. case page_goto E (calls s) p (arg_url a) of
               Inl e \<Rightarrow> (Inl e, issue (Goto p (arg_url a)) s)
             | Inr _ \<Rightarrow>
                 (Inr (text_result (''Navigated to '' @ arg_url a) False),
                  issue (Goto p (arg_url a)) s))
       s"

text \<open>
  The value of \<^verbatim>\<open>screenshot\<close> in the screenshot tool: the element's capture when the
  selector is truthy, \<^verbatim>\<open>undefined\<close> when it matches nothing, the page's capture
  otherwise.
\<close>

definition capture ::
  "env \<Rightarrow> page_handle \<Rightarrow> string option \<Rightarrow> state \<Rightarrow> (string + string option) \<times> state" where
  "capture E p sel s =
     (if truthy sel then
        (let s1 = issue (Query p (js_str sel)) s in
         case page_query E (calls s) p (js_str sel) of
           Inl e \<Rightarrow> (Inl e, s1)
         | Inr None \<Rightarrow> (Inr None, s1)
         | Inr (Some el) \<Rightarrow>
             (case element_screenshot E (calls s1) el of
                Inl e \<Rightarrow> (Inl e, issue (ElementScreenshot el) s1)
              | Inr d \<Rightarrow> (Inr (Some d), issue (ElementScreenshot el) s1)))
      else
        (case page_screenshot E (calls s) p of
           Inl e \<Rightarrow> (Inl e, issue (PageScreenshot p) s)
         | Inr d \<Rightarrow> (Inr (Some d), issue (PageScreenshot p) s)))"

definition screenshot_width :: "args \<Rightarrow> int" where
  "screenshot_width a = (case arg_width a of None \<Rightarrow> 800 | Some w \<Rightarrow> w)"

definition screenshot_height :: "args \<Rightarrow> int" where
  "screenshot_height a = (case arg_height a of None \<Rightarrow> 600 | Some h \<Rightarrow> h)"

definition puppeteer_screenshot ::
  "env \<Rightarrow> session \<Rightarrow> args \<Rightarrow> state \<Rightarrow> (string + toolResult) \<times> state" where
  "puppeteer_screenshot E sess a s =
     (let width = screenshot_width a; height = screenshot_height a
      in on_page sess ''setViewport''
           (\<lambda>p. case page_setViewport E (calls s) p width height of
                   Inl e \<Rightarrow> (Inl e, issue (SetViewport p width height) s)
                 | Inr _ \<Rightarrow>
                     (let s1 = (issue (SetViewport p width height) s)
                                 \<lparr>viewports := AList.update p (width, height) (viewports s)\<rparr>
                      in case capture E p (arg_selector a) s1 of
                           (Inl e, s2) \<Rightarrow> (Inl e, s2)
                         | (Inr shot, s2) \<Rightarrow>
                             if \<not> truthy shot then
                               (Inr (text_result
                                       (if truthy (arg_selector a)
                                        then ''Element not found: '' @ js_str (arg_selector a)
                                        else ''Screenshot failed'')
                                       True),
                                s2)
                             else
                               (Inr \<lparr>content =
                                       [TextContent
                                          (''Screenshot '' @ apostrophe @ arg_name a @ apostrophe
                                           @ '' taken at '' @ js_number width @ ''x''
                                           @ js_number height),
                                        ImageContent (js_str shot) ''image/png''],
                                     isError = False\<rparr>,
                                s2\<lparr>screenshots :=
                                     AList.update (arg_name a) (js_str shot) (screenshots s2),
                                   notifications := notifications s2 @ [ResourcesListChanged]\<rparr>)))
           s)"

definition puppeteer_click ::
  "env \<Rightarrow> session \<Rightarrow> args \<Rightarrow> state \<Rightarrow> (string + toolResult) \<times> state" where
  "puppeteer_click E sess a s =
     try_catch
       (on_page sess ''click''
          (\<lambda>p. case page_click E (calls s) p (arg_selector a) of
                  Inl e \<Rightarrow> (Inl e, issue (Click p (arg_selector a)) s)
                | Inr _ \<Rightarrow>
                    (Inr (text_result (''Clicked: '' @ js_str (arg_selector a)) False),
                     issue (Click p (arg_selector a)) s))
          s)
       (\<lambda>e. ''Failed to click '' @ js_str (arg_selector a) @ '': '' @ e)"

definition puppeteer_fill ::
  "env \<Rightarrow> session \<Rightarrow> args \<Rightarrow> state \<Rightarrow> (string + toolResult) \<times> state" where
  "puppeteer_fill E sess a s =
     try_catch
       (on_page sess ''waitForSelector''
          (\<lambda>p. let s1 = issue (WaitForSelector p (arg_selector a)) s in
                case page_waitForSelector E (calls s) p (arg_selector a) of
                  Inl e \<Rightarrow> (Inl e, s1)
                | Inr _ \<Rightarrow>
                    (let s2 = issue (TypeInto p (arg_selector a) (arg_value a)) s1 in
                     case page_type E (calls s1) p (arg_selector a) (arg_value a) of
                       Inl e \<Rightarrow> (Inl e, s2)
                     | Inr _ \<Rightarrow>
                         (Inr (text_result
                                 (''Filled '' @ js_str (arg_selector a) @ '' with: ''
                                  @ arg_value a)
                                 False),
                          s2)))
          s)
       (\<lambda>e. ''Failed to fill '' @ js_str (arg_selector a) @ '': '' @ e)"

definition puppeteer_evaluate ::
  "env \<Rightarrow> session \<Rightarrow> args \<Rightarrow> state \<Rightarrow> (string + toolResult) \<times> state" where
  "puppeteer_evaluate E sess a s =
     try_catch
       (on_page sess ''evaluate''
          (\<lambda>p. case evaluate_script E (calls s) p (arg_script a) of
                  Inl e \<Rightarrow> (Inl e, issue (EvalScript p (arg_script a)) s)
                | Inr (result, logs) \<Rightarrow>
                    (Inr (text_result
                            (''Execution result:'' @ newline @ JSON_stringify E result
                             @ newline @ newline @ ''Console output:'' @ newline
                             @ join_with newline logs)
                            False),
                     issue (EvalScript p (arg_script a)) s))
          s)
       (\<lambda>e. ''Script execution failed: '' @ e)"

definition puppeteer_get_json ::
  "env \<Rightarrow> session \<Rightarrow> args \<Rightarrow> state \<Rightarrow> (string + toolResult) \<times> state" where
  "puppeteer_get_json E sess a s =
     try_catch
       (on_page sess ''evaluate''
          (\<lambda>p. case evaluate_get_json E (calls s) p (arg_selector a) of
                  Inl e \<Rightarrow> (Inl e, issue (EvalGetJson p (arg_selector a)) s)
                | Inr result \<Rightarrow>
                    (Inr (text_result
                            (''Found JSON content:'' @ newline @ JSON_stringify E result)
                            False),
                     issue (EvalGetJson p (arg_selector a)) s))
          s)
       (\<lambda>e. ''Failed to extract JSON: '' @ e)"

definition puppeteer_get_content ::
  "env \<Rightarrow> session \<Rightarrow> args \<Rightarrow> state \<Rightarrow> (string + toolResult) \<times> state" where
  "puppeteer_get_content E sess a s =
     try_catch
       (let sel = (if truthy (arg_selector a) then arg_selector a else None) in
        on_page sess ''evaluate''
          (\<lambda>p. case evaluate_content E (calls s) p sel of
                  Inl e \<Rightarrow> (Inl e, issue (EvalContent p sel) s)
                | Inr texts \<Rightarrow>
                    (Inr (text_result
                            (''Extracted content:'' @ newline
                             @ JSON_stringify E (JArr (map JStr texts)))
                            False),
                     issue (EvalContent p sel) s))
          s)
       (\<lambda>e. ''Failed to extract content: '' @ e)"

subsection \<open>Bulk parallel navigation\<close>

datatype item_result =
    ItemContent "string option" string string
  | ItemError "string option" string string

definition result_json :: "item_result \<Rightarrow> json" where
  "result_json r =
     (case r of
        ItemContent i u c \<Rightarrow> JObj [(''id'', json_of i), (''url'', JStr u), (''content'', JStr c)]
      | ItemError i u e \<Rightarrow> JObj [(''id'', json_of i), (''url'', JStr u), (''error'', JStr e)])"

text \<open>
  One item of the bulk tool: the session is created outside the item's
  \<^verbatim>\<open>try\<close>, so a failure there rejects the item's promise; a failure of the
  navigation or of the text extraction is the item's error entry.
\<close>

definition parallel_item ::
  "env \<Rightarrow> session_item \<Rightarrow> state \<Rightarrow> (string + item_result) \<times> state" where
  "parallel_item E it s =
     (case createNewBrowserSession E (item_id it) s of
        (Inl e, s1) \<Rightarrow> (Inl e, s1)
      | (Inr sess, s1) \<Rightarrow>
          (case page sess of
             None \<Rightarrow> (Inr (ItemError (item_id it) (item_url it) (undefined_read ''goto'')), s1)
           | Some p \<Rightarrow>
               (let s2 = issue (Goto p (item_url it)) s1 in
                case page_goto E (calls s1) p (item_url it) of
                  Inl e \<Rightarrow> (Inr (ItemError (item_id it) (item_url it) e), s2)
                | Inr _ \<Rightarrow>
                    (let s3 = issue (EvalInnerText p) s2 in
                     case evaluate_innerText E (calls s2) p of
                       Inl e \<Rightarrow> (Inr (ItemError (item_id it) (item_url it) e), s3)
                     | Inr c \<Rightarrow> (Inr (ItemContent (item_id it) (item_url it) c), s3)))))"

text \<open>
  The items run concurrently in the source, and \<^verbatim>\<open>Promise.all\<close> rejects as soon as
  one item's promise is rejected, with the other items still pending. The embedding
  fixes one schedule, that in which the provider answers the items one after the
  other in list order: an item runs to its end before the connection of the next one
  settles. When an item is rejected in this schedule the later items are still
  waiting for their connection, so nothing of them is recorded when the call
  returns; what they do afterwards is outside the call.
\<close>

fun parallel_items ::
  "env \<Rightarrow> session_item list \<Rightarrow> state \<Rightarrow> (string + item_result) list \<times> state" where
  "parallel_items E [] s = ([], s)"
| "parallel_items E (it # its) s =
     (case parallel_item E it s of
        (Inl e, s1) \<Rightarrow> ([Inl e], s1)
      | (Inr r, s1) \<Rightarrow>
          (case parallel_items E its s1 of (rs, s2) \<Rightarrow> (Inr r # rs, s2)))"

text \<open>
  \<^verbatim>\<open>Promise.all\<close> on the promises settled so far: the values in order, or the
  rejection. In the schedule above the first rejection in time is the first one in
  the list.
\<close>

fun promise_all :: "(string + 'a) list \<Rightarrow> string + 'a list" where
  "promise_all [] = Inr []"
| "promise_all (Inl e # rs) = Inl e"
| "promise_all (Inr x # rs) = (case promise_all rs of Inl e \<Rightarrow> Inl e | Inr xs \<Rightarrow> Inr (x # xs))"

text \<open>The id and url that an entry of the result carries.\<close>

definition entry_key :: "item_result \<Rightarrow> string option \<times> string" where
  "entry_key r = (case r of ItemContent i u c \<Rightarrow> (i, u) | ItemError i u e \<Rightarrow> (i, u))"

definition starting_line :: "session_item list \<Rightarrow> string" where
  "starting_line its =
     ''Starting parallel sessions for '' @ js_number (int (length its)) @ '' sessions''"

definition creating_line :: "session_item \<Rightarrow> string" where
  "creating_line it = ''Creating session for '' @ js_str (item_id it) @ '': '' @ item_url it"

definition puppeteer_parallel_sessions ::
  "env \<Rightarrow> args \<Rightarrow> state \<Rightarrow> (string + toolResult) \<times> state" where
  "puppeteer_parallel_sessions E a s =
     try_catch
       (let s0 = s\<lparr>stdout := stdout s @ starting_line (arg_sessions a)
                                # map creating_line (arg_sessions a)\<rparr>
        in case parallel_items E (arg_sessions a) s0 of
             (rs, s1) \<Rightarrow>
               (case promise_all rs of
                  Inl e \<Rightarrow> (Inl e, s1)
                | Inr results \<Rightarrow>
                    (Inr (text_result
                            (''Parallel sessions results:'' @ newline
                             @ JSON_stringify E (JArr (map result_json results)))
                            False),
                     s1)))
       (\<lambda>e. ''Failed to execute parallel sessions: '' @ e)"

subsection \<open>Document tools\<close>

definition notion_read_page :: "env \<Rightarrow> args \<Rightarrow> state \<Rightarrow> (string + toolResult) \<times> state" where
  "notion_read_page E a s =
     try_catch
       (let pageUrl = (if truthy (arg_pageUrl a) then js_str (arg_pageUrl a)
                       else NOTION_PAGE_URL E)
        in case extractNotionPageId pageUrl of
             Inl e \<Rightarrow> (Inl e, s)
           | Inr pageId \<Rightarrow>
               (case blocks_children_list E (calls s) pageId of
                  Inl e \<Rightarrow> (Inl e, issue (BlocksChildrenList pageId) s)
                | Inr pageContent \<Rightarrow>
                    (Inr (text_result (JSON_stringify E pageContent) False),
                     issue (BlocksChildrenList pageId) s)))
       (\<lambda>e. ''Failed to read page: '' @ e)"

definition notion_update_page :: "env \<Rightarrow> args \<Rightarrow> state \<Rightarrow> (string + toolResult) \<times> state" where
  "notion_update_page E a s =
     try_catch
       (case blocks_children_append E (calls s) (arg_pageId a) (arg_content a) of
          Inl e \<Rightarrow> (Inl e, issue (BlocksChildrenAppend (arg_pageId a) (arg_content a)) s)
        | Inr _ \<Rightarrow>
            (Inr (text_result ''Page updated successfully'' False),
             issue (BlocksChildrenAppend (arg_pageId a) (arg_content a)) s))
       (\<lambda>e. ''Failed to update page: '' @ e)"

definition notion_append_content :: "env \<Rightarrow> args \<Rightarrow> state \<Rightarrow> (string + toolResult) \<times> state" where
  "notion_append_content E a s =
     try_catch
       (case blocks_children_append E (calls s) (arg_pageId a) (arg_content a) of
          Inl e \<Rightarrow> (Inl e, issue (BlocksChildrenAppend (arg_pageId a) (arg_content a)) s)
        | Inr _ \<Rightarrow>
            (Inr (text_result ''Content appended successfully'' False),
             issue (BlocksChildrenAppend (arg_pageId a) (arg_content a)) s))
       (\<lambda>e. ''Failed to append content: '' @ e)"

definition notion_read_comments :: "env \<Rightarrow> args \<Rightarrow> state \<Rightarrow> (string + toolResult) \<times> state" where
  "notion_read_comments E a s =
     try_catch
       (case comments_list E (calls s) (arg_pageId a) of
          Inl e \<Rightarrow> (Inl e, issue (CommentsList (arg_pageId a)) s)
        | Inr comments \<Rightarrow>
            (Inr (text_result (JSON_stringify E comments) False),
             issue (CommentsList (arg_pageId a)) s))
       (\<lambda>e. ''Failed to read comments: '' @ e)"

definition notion_add_comment :: "env \<Rightarrow> args \<Rightarrow> state \<Rightarrow> (string + toolResult) \<times> state" where
  "notion_add_comment E a s =
     try_catch
       (case comments_create E (calls s) (arg_pageId a) (arg_comment a) of
          Inl e \<Rightarrow> (Inl e, issue (CommentsCreate (arg_pageId a) (arg_comment a)) s)
        | Inr _ \<Rightarrow>
            (Inr (text_result ''Comment added successfully'' False),
             issue (CommentsCreate (arg_pageId a) (arg_comment a)) s))
       (\<lambda>e. ''Failed to add comment: '' @ e)"

text \<open>
  The property map of a new database entry: the title, the tags when there are some,
  then the caller's own properties assigned over them. The list is in insertion
  order, which is the order a JavaScript object enumerates its keys in unless some
  key is integer-like (those come first, in ascending order).
\<close>

definition entry_properties :: "args \<Rightarrow> (string \<times> json) list" where
  "entry_properties a =
     (let name_prop =
            [(''Name'', JObj [(''title'',
                JArr [JObj [(''text'', JObj [(''content'', JStr (arg_title a))])]])])];
          tagged =
            (case arg_tags a of
               None \<Rightarrow> name_prop
             | Some tags \<Rightarrow>
                 if length tags > 0
                 then AList.update ''Tags''
                        (JObj [(''multi_select'',
                                JArr (map (\<lambda>tag. JObj [(''name'', JStr tag)]) tags))])
                        name_prop
                 else name_prop)
      in case arg_properties a of
           None \<Rightarrow> tagged
         | Some props \<Rightarrow> fold (\<lambda>kv acc. AList.update (fst kv) (snd kv) acc) props tagged)"

definition notion_add_to_database :: "env \<Rightarrow> args \<Rightarrow> state \<Rightarrow> (string + toolResult) \<times> state" where
  "notion_add_to_database E a s =
     try_catch
       (let database_id = (if truthy (arg_databaseId a) then js_str (arg_databaseId a)
                           else NOTION_DATABASE_ID E);
            children = (if truthy (arg_content a) then arg_content a else None);
            s1 = issue (PagesCreate database_id (entry_properties a) children) s
        in case pages_create E (calls s) database_id (entry_properties a) children of
             Inl e \<Rightarrow> (Inl e, s1)
           | Inr response_id \<Rightarrow>
               (Inr (text_result
                       (''Created database entry: https://notion.so/''
                        @ filter (\<lambda>c. c \<noteq> CHR ''-'') response_id)
                       False),
                s1))
       (\<lambda>e. ''Failed to create database entry: '' @ e)"

subsection \<open>Dispatch\<close>

datatype tool_case =
    CreateSession
  | Navigate
  | Screenshot
  | ClickCase
  | Fill
  | Evaluate
  | GetJson
  | GetContent
  | ParallelSessions
  | NotionReadPage
  | NotionUpdatePage
  | NotionAppendContent
  | NotionReadComments
  | NotionAddComment
  | NotionAddToDatabase

text \<open>The \<^verbatim>\<open>case\<close> labels of the \<^verbatim>\<open>switch\<close>, in source order; \<open>None\<close> is \<^verbatim>\<open>default\<close>.\<close>

definition switch_case :: "string \<Rightarrow> tool_case option" where
  "switch_case name =
     (if name = ''puppeteer_create_session'' then Some CreateSession
      else if name = ''puppeteer_navigate'' then Some Navigate
      else if name = ''puppeteer_screenshot'' then Some Screenshot
      else if name = ''puppeteer_click'' then Some ClickCase
      else if name = ''puppeteer_fill'' then Some Fill
      else if name = ''puppeteer_evaluate'' then Some Evaluate
      else if name = ''puppeteer_get_json'' then Some GetJson
      else if name = ''puppeteer_get_content'' then Some GetContent
      else if name = ''puppeteer_parallel_sessions'' then Some ParallelSessions
      else if name = ''notion_read_page'' then Some NotionReadPage
      else if name = ''notion_update_page'' then Some NotionUpdatePage
      else if name = ''notion_append_content'' then Some NotionAppendContent
      else if name = ''notion_read_comments'' then Some NotionReadComments
      else if name = ''notion_add_comment'' then Some NotionAddComment
      else if name = ''notion_add_to_database'' then Some NotionAddToDatabase
      else None)"

text \<open>
  \<^verbatim>\<open>handleToolCall\<close>. The default session is resolved before the \<^verbatim>\<open>switch\<close> and
  outside every \<^verbatim>\<open>try\<close>. It is \<^verbatim>\<open>null\<close> only for the bulk tool, whose case does not
  read it.
\<close>

definition handleToolCall ::
  "env \<Rightarrow> string \<Rightarrow> args \<Rightarrow> state \<Rightarrow> (string + toolResult) \<times> state" where
  "handleToolCall E name a s =
     (case defaultSession E name a s of
        (Inl e, s1) \<Rightarrow> (Inl e, s1)
      | (Inr None, s1) \<Rightarrow> puppeteer_parallel_sessions E a s1
      | (Inr (Some sess), s1) \<Rightarrow>
          (case switch_case name of
             Some CreateSession \<Rightarrow> puppeteer_create_session E a s1
           | Some Navigate \<Rightarrow> puppeteer_navigate E sess a s1
           | Some Screenshot \<Rightarrow> puppeteer_screenshot E sess a s1
           | Some ClickCase \<Rightarrow> puppeteer_click E sess a s1
           | Some Fill \<Rightarrow> puppeteer_fill E sess a s1
           | Some Evaluate \<Rightarrow> puppeteer_evaluate E sess a s1
           | Some GetJson \<Rightarrow> puppeteer_get_json E sess a s1
           | Some GetContent \<Rightarrow> puppeteer_get_content E sess a s1
           | Some ParallelSessions \<Rightarrow> puppeteer_parallel_sessions E a s1
           | Some NotionReadPage \<Rightarrow> notion_read_page E a s1
           | Some NotionUpdatePage \<Rightarrow> notion_update_page E a s1
           | Some NotionAppendContent \<Rightarrow> notion_append_content E a s1
           | Some NotionReadComments \<Rightarrow> notion_read_comments E a s1
           | Some NotionAddComment \<Rightarrow> notion_add_comment E a s1
           | Some NotionAddToDatabase \<Rightarrow> notion_add_to_database E a s1
           | None \<Rightarrow> (Inr (text_result (''Unknown tool: '' @ name) True), s1)))"

section \<open>Request handlers\<close>

record resource =
  uri :: string
  mimeType :: string
  resource_name :: string

definition listResources :: "state \<Rightarrow> resource list" where
  "listResources s =
     \<lparr>uri = ''console://logs'', mimeType = ''text/plain'',
      resource_name = ''Browser console logs''\<rparr>
     # map (\<lambda>name. \<lparr>uri = ''screenshot://'' @ name, mimeType = ''image/png'',
                     resource_name = ''Screenshot: '' @ name\<rparr>)
         (map fst (screenshots s))"

datatype resource_contents =
    TextContents string string string
  | BlobContents string string string

text \<open>
  The screenshot a URI names: the second piece of the URI split at \<^verbatim>\<open>://\<close> is looked
  up, and an empty payload counts as no screenshot.
\<close>

definition find_screenshot :: "string \<Rightarrow> state \<Rightarrow> string option" where
  "find_screenshot u s =
     (if startsWith u ''screenshot://'' then
        (case split_on ''://'' u of
           _ # name # _ \<Rightarrow>
             (case map_of (screenshots s) name of
                None \<Rightarrow> None
              | Some shot \<Rightarrow> if shot \<noteq> [] then Some shot else None)
         | _ \<Rightarrow> None)
      else None)"

definition readResource :: "string \<Rightarrow> state \<Rightarrow> string + resource_contents" where
  "readResource u s =
     (if u = ''console://logs''
      then Inr (TextContents u ''text/plain'' (join_with newline (consoleLogs s)))
      else (case find_screenshot u s of
              Some shot \<Rightarrow> Inr (BlobContents u ''image/png'' shot)
            | None \<Rightarrow> Inl (''Resource not found: '' @ u)))"

section \<open>Sample collaborators and arguments\<close>

text \<open>
  A plain rendering of a value, without indentation or escapes, that stands for
  \<^verbatim>\<open>JSON.stringify\<close> in the samples.
\<close>

definition quote :: string where
  "quote = [CHR 0x22]"

fun compact_json :: "json \<Rightarrow> string" where
  "compact_json JUndefined = ''undefined''"
| "compact_json JNull = ''null''"
| "compact_json (JBool b) = (if b then ''true'' else ''false'')"
| "compact_json (JNum i) = js_number i"
| "compact_json (JStr s) = quote @ s @ quote"
| "compact_json (JArr xs) = ''['' @ join_with '','' (map compact_json xs) @ '']''"
| "compact_json (JObj kvs) =
     ''{'' @ join_with '',''
              (map (\<lambda>kv. quote @ fst kv @ quote @ '':'' @ compact_json (snd kv)) kvs) @ ''}''"

text \<open>
  A provider that accepts every connection (the \<open>n\<close>-th connection yields browser
  \<open>n\<close>, whose only page is page \<open>n\<close>), fails to navigate to \<^verbatim>\<open>bad://\<close> and has no
  element for the selector \<^verbatim>\<open>#missing\<close>.
\<close>

definition sample_env :: env where
  "sample_env =
     \<lparr>puppeteer_connect = (\<lambda>h. Inr (length (filter (\<lambda>c. c = Connect) h))),
      browser_pages = (\<lambda>h b. Inr [b]),
      page_goto = (\<lambda>h p u. if u = ''bad://'' then Inl ''net::ERR_ABORTED'' else Inr ()),
      page_setViewport = (\<lambda>h p w ht. Inr ()),
      page_query = (\<lambda>h p sel. Inr (if sel = ''#missing'' then None else Some 0)),
      element_screenshot = (\<lambda>h el. Inr ''ZWxlbQ==''),
      page_screenshot = (\<lambda>h p. Inr ''cGFnZQ==''),
      page_click = (\<lambda>h p sel. Inr ()),
      page_waitForSelector = (\<lambda>h p sel. Inr ()),
      page_type = (\<lambda>h p sel v. Inr ()),
      evaluate_script = (\<lambda>h p c. Inr (JNull, [])),
      evaluate_get_json = (\<lambda>h p sel. Inr (JObj [])),
      evaluate_content = (\<lambda>h p sel. Inr []),
      evaluate_innerText = (\<lambda>h p. Inr ''hello''),
      blocks_children_list = (\<lambda>h i. Inr (JObj [])),
      blocks_children_append = (\<lambda>h i c. Inr ()),
      comments_list = (\<lambda>h i. Inr (JObj [])),
      comments_create = (\<lambda>h i c. Inr ()),
      pages_create = (\<lambda>h d ps c. Inr ''abc-def''),
      JSON_stringify = compact_json,
      NOTION_PAGE_URL = ''https://www.notion.so/default-page'',
      NOTION_DATABASE_ID = ''default-database-id''\<rparr>"

text \<open>The same provider when it cannot be reached.\<close>

definition unreachable_env :: env where
  "unreachable_env = sample_env\<lparr>puppeteer_connect := (\<lambda>h. Inl ''connect ECONNREFUSED'')\<rparr>"

text \<open>The same provider when it accepts one connection only.\<close>

definition single_connection_env :: env where
  "single_connection_env =
     sample_env\<lparr>puppeteer_connect :=
       (\<lambda>h. if Connect \<in> set h then Inl ''connect ECONNREFUSED'' else Inr 0)\<rparr>"

text \<open>The same provider when every page request fails.\<close>

definition failing_page_env :: env where
  "failing_page_env =
     sample_env\<lparr>page_setViewport := (\<lambda>h p w ht. Inl ''Target closed''),
                page_click := (\<lambda>h p sel. Inl ''Target closed'')\<rparr>"

definition sample_args :: args where
  "sample_args =
     \<lparr>arg_sessionId = Some ''s1'', arg_url = ''https://x'', arg_name = ''home'',
      arg_selector = None, arg_width = None, arg_height = None, arg_value = ''v'',
      arg_script = ''1+1'', arg_sessions = [], arg_pageUrl = None, arg_pageId = ''p'',
      arg_content = None, arg_comment = ''c'', arg_databaseId = None, arg_title = ''t'',
      arg_tags = None, arg_properties = None\<rparr>"

text \<open>A catalog that holds two screenshots.\<close>

definition two_shots :: state where
  "two_shots = initial_state\<lparr>screenshots := [(''home'', ''QQ==''), (''cart'', ''Qg=='')]\<rparr>"

text \<open>A screenshot taken under a name that is itself a URL.\<close>

definition url_named_args :: args where
  "url_named_args = sample_args\<lparr>arg_name := ''https://example.com''\<rparr>"

definition url_named_state :: state where
  "url_named_state =
     snd (handleToolCall sample_env ''puppeteer_screenshot'' url_named_args initial_state)"

text \<open>
  One console message as a subscription captures it: the session identifier the
  listener closes over, and the message's type and text.
\<close>

record console_event =
  event_session :: "string option"
  event_type :: string
  event_text :: string

definition entry_of :: "console_event \<Rightarrow> string" where
  "entry_of ev = logEntry (event_session ev) (event_type ev) (event_text ev)"

definition capture_events :: "console_event list \<Rightarrow> state \<Rightarrow> state" where
  "capture_events evs s =
     fold (\<lambda>ev. consoleListener (event_session ev) (event_type ev) (event_text ev)) evs s"

definition two_events :: "console_event list" where
  "two_events =
     [\<lparr>event_session = Some ''a'', event_type = ''log'', event_text = ''x''\<rparr>,
      \<lparr>event_session = Some ''b'', event_type = ''error'', event_text = ''y''\<rparr>]"

definition multiline_event :: console_event where
  "multiline_event =
     \<lparr>event_session = Some ''s1'', event_type = ''log'', event_text = ''a'' @ newline @ ''b''\<rparr>"

text \<open>A registry that already holds the session \<^verbatim>\<open>s1\<close>.\<close>

definition registered_state :: state where
  "registered_state =
     initial_state\<lparr>browsers := [(Some ''s1'', \<lparr>browser = 0, page = Some 0\<rparr>)]\<rparr>"

text \<open>A screenshot call whose selector matches nothing on the sample provider.\<close>

definition missing_args :: args where
  "missing_args = sample_args\<lparr>arg_selector := Some ''#missing''\<rparr>"

text \<open>The requests of the capture step of the screenshot tool.\<close>

definition is_capture_call :: "call \<Rightarrow> bool" where
  "is_capture_call c =
     (case c of Query _ _ \<Rightarrow> True | ElementScreenshot _ \<Rightarrow> True | PageScreenshot _ \<Rightarrow> True
      | _ \<Rightarrow> False)"

text \<open>The number of connections the server has opened or tried to open.\<close>

definition connections :: "state \<Rightarrow> nat" where
  "connections s = length (filter (\<lambda>c. c = Connect) (calls s))"

text \<open>The bulk call of the specification's example.\<close>

definition two_items_args :: args where
  "two_items_args =
     sample_args\<lparr>arg_sessions :=
       [\<lparr>item_id = Some ''a'', item_url = ''https://x''\<rparr>,
        \<lparr>item_id = Some ''b'', item_url = ''bad://''\<rparr>]\<rparr>"

section \<open>What a call leaves unchanged\<close>

lemma createNewBrowserSession_frame:
  "screenshots (snd (createNewBrowserSession E sid s)) = screenshots s \<and>
   consoleLogs (snd (createNewBrowserSession E sid s)) = consoleLogs s \<and>
   notifications (snd (createNewBrowserSession E sid s)) = notifications s \<and>
   stdout (snd (createNewBrowserSession E sid s)) = stdout s \<and>
   viewports (snd (createNewBrowserSession E sid s)) = viewports s"
  by (simp add: createNewBrowserSession_def issue_def Let_def
           split: sum.splits list.splits option.splits)

lemma defaultSession_frame:
  "screenshots (snd (defaultSession E n a s)) = screenshots s \<and>
   consoleLogs (snd (defaultSession E n a s)) = consoleLogs s \<and>
   notifications (snd (defaultSession E n a s)) = notifications s \<and>
   stdout (snd (defaultSession E n a s)) = stdout s \<and>
   viewports (snd (defaultSession E n a s)) = viewports s"
  by (simp add: defaultSession_def split_beta createNewBrowserSession_frame
           split: option.splits sum.splits)

lemma capture_frame:
  "screenshots (snd (capture E p sel s)) = screenshots s \<and>
   consoleLogs (snd (capture E p sel s)) = consoleLogs s \<and>
   notifications (snd (capture E p sel s)) = notifications s \<and>
   stdout (snd (capture E p sel s)) = stdout s \<and>
   viewports (snd (capture E p sel s)) = viewports s"
  by (simp add: capture_def issue_def Let_def split: option.splits sum.splits)

lemma puppeteer_screenshot_logs:
  "consoleLogs (snd (puppeteer_screenshot E sess a s)) = consoleLogs s"
  by (simp add: puppeteer_screenshot_def on_page_def issue_def Let_def split_beta capture_frame
           split: option.splits sum.splits)

lemma puppeteer_screenshot_shots:
  "screenshots (snd (puppeteer_screenshot E sess a s)) = screenshots s \<or>
   (\<exists>v. v \<noteq> [] \<and>
      screenshots (snd (puppeteer_screenshot E sess a s)) =
        AList.update (arg_name a) v (screenshots s))"
  by (auto simp: puppeteer_screenshot_def on_page_def issue_def Let_def split_beta capture_frame
        truthy_def js_str_def split: option.splits sum.splits)

lemma try_catch_snd: "snd (try_catch b h) = snd b"
  by (simp add: try_catch_def split: prod.splits sum.splits)

lemma create_session_frame:
  "screenshots (snd (puppeteer_create_session E a s)) = screenshots s \<and>
   consoleLogs (snd (puppeteer_create_session E a s)) = consoleLogs s"
  by (simp add: puppeteer_create_session_def try_catch_snd split_beta createNewBrowserSession_frame split: sum.splits)

lemma navigate_frame:
  "screenshots (snd (puppeteer_navigate E sess a s)) = screenshots s \<and>
   consoleLogs (snd (puppeteer_navigate E sess a s)) = consoleLogs s"
  by (simp add: puppeteer_navigate_def on_page_def issue_def split: option.splits sum.splits)

lemma click_frame:
  "screenshots (snd (puppeteer_click E sess a s)) = screenshots s \<and>
   consoleLogs (snd (puppeteer_click E sess a s)) = consoleLogs s"
  by (simp add: puppeteer_click_def try_catch_snd on_page_def issue_def split: option.splits sum.splits)

lemma fill_frame:
  "screenshots (snd (puppeteer_fill E sess a s)) = screenshots s \<and>
   consoleLogs (snd (puppeteer_fill E sess a s)) = consoleLogs s"
  by (simp add: puppeteer_fill_def try_catch_snd on_page_def issue_def Let_def split: option.splits sum.splits)

lemma evaluate_frame:
  "screenshots (snd (puppeteer_evaluate E sess a s)) = screenshots s \<and>
   consoleLogs (snd (puppeteer_evaluate E sess a s)) = consoleLogs s"
  by (simp add: puppeteer_evaluate_def try_catch_snd on_page_def issue_def split_beta split: option.splits sum.splits)

lemma get_json_frame:
  "screenshots (snd (puppeteer_get_json E sess a s)) = screenshots s \<and>
   consoleLogs (snd (puppeteer_get_json E sess a s)) = consoleLogs s"
  by (simp add: puppeteer_get_json_def try_catch_snd on_page_def issue_def split: option.splits sum.splits)

lemma get_content_frame:
  "screenshots (snd (puppeteer_get_content E sess a s)) = screenshots s \<and>
   consoleLogs (snd (puppeteer_get_content E sess a s)) = consoleLogs s"
  by (simp add: puppeteer_get_content_def try_catch_snd on_page_def issue_def Let_def split: option.splits sum.splits)

lemma parallel_item_frame:
  "screenshots (snd (parallel_item E it s)) = screenshots s \<and>
   consoleLogs (snd (parallel_item E it s)) = consoleLogs s"
  by (simp add: parallel_item_def split_beta issue_def Let_def createNewBrowserSession_frame
           split: option.splits sum.splits)

lemma parallel_items_frame:
  "screenshots (snd (parallel_items E its s)) = screenshots s \<and>
   consoleLogs (snd (parallel_items E its s)) = consoleLogs s"
proof (induction its arbitrary: s)
  case Nil
  then show ?case by simp
next
  case (Cons it its)
  show ?case
  proof (cases "fst (parallel_item E it s)")
    case (Inl e)
    then show ?thesis
      using parallel_item_frame [of E it s] by (simp add: split_beta)
  next
    case (Inr r)
    then show ?thesis
      using parallel_item_frame [of E it s] Cons.IH [of "snd (parallel_item E it s)"]
      by (simp add: split_beta)
  qed
qed

lemma parallel_sessions_frame:
  "screenshots (snd (puppeteer_parallel_sessions E a s)) = screenshots s \<and>
   consoleLogs (snd (puppeteer_parallel_sessions E a s)) = consoleLogs s"
  by (simp add: puppeteer_parallel_sessions_def try_catch_snd split_beta Let_def parallel_items_frame
           split: sum.splits)

lemma notion_read_page_frame:
  "screenshots (snd (notion_read_page E a s)) = screenshots s \<and>
   consoleLogs (snd (notion_read_page E a s)) = consoleLogs s"
  by (simp add: notion_read_page_def try_catch_snd issue_def Let_def split: sum.splits)

lemma notion_update_page_frame:
  "screenshots (snd (notion_update_page E a s)) = screenshots s \<and>
   consoleLogs (snd (notion_update_page E a s)) = consoleLogs s"
  by (simp add: notion_update_page_def try_catch_snd issue_def split: sum.splits)

lemma notion_append_content_frame:
  "screenshots (snd (notion_append_content E a s)) = screenshots s \<and>
   consoleLogs (snd (notion_append_content E a s)) = consoleLogs s"
  by (simp add: notion_append_content_def try_catch_snd issue_def split: sum.splits)

lemma notion_read_comments_frame:
  "screenshots (snd (notion_read_comments E a s)) = screenshots s \<and>
   consoleLogs (snd (notion_read_comments E a s)) = consoleLogs s"
  by (simp add: notion_read_comments_def try_catch_snd issue_def split: sum.splits)

lemma notion_add_comment_frame:
  "screenshots (snd (notion_add_comment E a s)) = screenshots s \<and>
   consoleLogs (snd (notion_add_comment E a s)) = consoleLogs s"
  by (simp add: notion_add_comment_def try_catch_snd issue_def split: sum.splits)

lemma notion_add_to_database_frame:
  "screenshots (snd (notion_add_to_database E a s)) = screenshots s \<and>
   consoleLogs (snd (notion_add_to_database E a s)) = consoleLogs s"
  by (simp add: notion_add_to_database_def try_catch_snd issue_def Let_def split: sum.splits)

lemmas tool_frames = create_session_frame navigate_frame click_frame fill_frame evaluate_frame
  get_json_frame get_content_frame parallel_sessions_frame notion_read_page_frame
  notion_update_page_frame notion_append_content_frame notion_read_comments_frame
  notion_add_comment_frame notion_add_to_database_frame

lemma handleToolCall_logs:
  "consoleLogs (snd (handleToolCall E name a s)) = consoleLogs s"
  by (simp add: handleToolCall_def split_beta defaultSession_frame tool_frames
        puppeteer_screenshot_logs split: sum.splits option.splits tool_case.splits)

lemma handleToolCall_shots:
  "screenshots (snd (handleToolCall E name a s)) = screenshots s \<or>
   (\<exists>v. v \<noteq> [] \<and>
      screenshots (snd (handleToolCall E name a s)) =
        AList.update (arg_name a) v (screenshots s))"
  using puppeteer_screenshot_shots [of E _ a "snd (defaultSession E name a s)"]
  by (auto simp add: handleToolCall_def split_beta defaultSession_frame tool_frames
         split: sum.splits option.splits tool_case.splits)

section \<open>The resource listing\<close>

text \<open>
  The names of the stored screenshots stay distinct, whatever tool is called: the
  screenshot map has one entry per name.
\<close>

lemma handleToolCall_distinct_names:
  "distinct (map fst (screenshots s)) \<Longrightarrow>
   distinct (map fst (screenshots (snd (handleToolCall E name a s))))"
  using handleToolCall_shots [of E name a s] by (auto simp: distinct_update)

lemma initial_state_distinct_names: "distinct (map fst (screenshots initial_state))"
  by (simp add: initial_state_def)

text \<open>No stored payload is empty: a capture that is falsy is never stored.\<close>

lemma update_payloads:
  "v \<noteq> [] \<Longrightarrow> list_all (\<lambda>kv. snd kv \<noteq> []) al \<Longrightarrow>
   list_all (\<lambda>kv. snd kv \<noteq> []) (AList.update k v al)"
  by (induction al) auto

lemma handleToolCall_payloads:
  "list_all (\<lambda>kv. snd kv \<noteq> []) (screenshots s) \<Longrightarrow>
   list_all (\<lambda>kv. snd kv \<noteq> []) (screenshots (snd (handleToolCall E name a s)))"
  using handleToolCall_shots [of E name a s] by (auto simp: update_payloads)

lemma consoleListener_screenshots:
  "screenshots (consoleListener sid ty txt s) = screenshots s"
  by (simp add: consoleListener_def)

lemma listResources_update:
  "listResources (s\<lparr>screenshots := AList.update n v (screenshots s)\<rparr>) =
     (if n \<in> fst ` set (screenshots s) then listResources s
      else listResources s @ [\<lparr>uri = ''screenshot://'' @ n, mimeType = ''image/png'',
                                resource_name = ''Screenshot: '' @ n\<rparr>])"
  by (simp add: listResources_def update_keys)

text \<open>
  Claim C7. In every state the listing starts with the fixed console-log descriptor
  and continues with one descriptor per stored screenshot name, in the order of the
  screenshot map, each with its URI, media type and display name; as the names of the
  map are distinct, these are 1 + (number of distinct stored names) descriptors. The
  listing is a function of the current map: storing a screenshot under a new name
  appends its descriptor, and storing one under a name already present leaves the
  listing as it was, so the order is the order of first insertion.
\<close>

theorem listResources_descriptors:
  "hd (listResources s) =
     \<lparr>uri = ''console://logs'', mimeType = ''text/plain'',
      resource_name = ''Browser console logs''\<rparr> \<and>
   tl (listResources s) =
     map (\<lambda>name. \<lparr>uri = ''screenshot://'' @ name, mimeType = ''image/png'',
                    resource_name = ''Screenshot: '' @ name\<rparr>)
       (map fst (screenshots s)) \<and>
   (distinct (map fst (screenshots s)) \<longrightarrow>
      length (listResources s) = 1 + card (fst ` set (screenshots s))) \<and>
   listResources (s\<lparr>screenshots := AList.update n v (screenshots s)\<rparr>) =
     (if n \<in> fst ` set (screenshots s) then listResources s
      else listResources s @ [\<lparr>uri = ''screenshot://'' @ n, mimeType = ''image/png'',
                                resource_name = ''Screenshot: '' @ n\<rparr>])"
proof -
  have "distinct (map fst (screenshots s)) \<Longrightarrow>
        length (listResources s) = 1 + card (fst ` set (screenshots s))"
  proof -
    assume d: "distinct (map fst (screenshots s))"
    have "card (set (map fst (screenshots s))) = length (map fst (screenshots s))"
      using d by (rule distinct_card)
    then show ?thesis by (simp add: listResources_def)
  qed
  then show ?thesis
    using listResources_update [where s=s and n=n and v=v] by (simp add: listResources_def)
qed

theorem listResources_descriptors_witness:
  "distinct (map fst (screenshots two_shots)) \<and>
   length (listResources two_shots) = 3 \<and>
   map uri (listResources two_shots) =
     [''console://logs'', ''screenshot://home'', ''screenshot://cart''] \<and>
   map uri (listResources
              (two_shots\<lparr>screenshots := AList.update ''home'' ''Qw=='' (screenshots two_shots)\<rparr>)) =
     [''console://logs'', ''screenshot://home'', ''screenshot://cart'']"
  using listResources_descriptors [where s=two_shots and n="''home''" and v="''Qw==''"]
  by (simp add: two_shots_def initial_state_def listResources_def)

section \<open>Reading resources\<close>

lemma url_named_state_eq:
  "url_named_state =
     \<lparr>browsers = [(Some ''s1'', \<lparr>browser = 0, page = Some 0\<rparr>)], consoleLogs = [],
      screenshots = [(''https://example.com'', ''cGFnZQ=='')],
      notifications = [ResourcesListChanged], stdout = [],
      calls = [Connect, Pages 0, SetViewport 0 800 600, PageScreenshot 0],
      listeners = [(0, Some ''s1'')], viewports = [(0, 800, 600)]\<rparr>"
  by (simp add: url_named_state_def handleToolCall_def defaultSession_def
        createNewBrowserSession_def switch_case_def puppeteer_screenshot_def on_page_def
        capture_def issue_def truthy_def js_str_def screenshot_width_def screenshot_height_def
        url_named_args_def sample_args_def sample_env_def initial_state_def Let_def)

lemma split_url_named:
  "split_on ''://'' ''screenshot://https://example.com'' =
     [''screenshot'', ''https'', ''example.com'']"
  by (simp add: split_on.simps)

lemma readResource_console:
  "readResource ''console://logs'' s =
     Inr (TextContents ''console://logs'' ''text/plain'' (join_with newline (consoleLogs s)))"
  by (simp add: readResource_def)

lemma readResource_other:
  "u \<noteq> ''console://logs'' \<Longrightarrow> \<not> startsWith u ''screenshot://'' \<Longrightarrow>
   readResource u s = Inl (''Resource not found: '' @ u)"
  by (simp add: readResource_def find_screenshot_def)

text \<open>
  A stored screenshot whose name does not contain \<^verbatim>\<open>://\<close> is read back under the URI
  that the listing gives it.
\<close>

lemma split_on_absent:
  "sep \<noteq> [] \<Longrightarrow> \<forall>k. take (length sep) (drop k s) \<noteq> sep \<Longrightarrow> split_on sep s = [s]"
proof (induction s)
  case Nil
  then show ?case by simp
next
  case (Cons c cs)
  have "take (length sep) (drop 0 (c # cs)) \<noteq> sep"
    using Cons.prems(2) by blast
  then have h: "take (length sep) (c # cs) \<noteq> sep" by simp
  have "\<forall>k. take (length sep) (drop k cs) \<noteq> sep"
  proof
    fix k
    have "take (length sep) (drop (Suc k) (c # cs)) \<noteq> sep"
      using Cons.prems(2) by blast
    then show "take (length sep) (drop k cs) \<noteq> sep" by simp
  qed
  then have "split_on sep cs = [cs]"
    using Cons.IH Cons.prems(1) by blast
  then show ?case using h by (simp add: split_on.simps)
qed

lemma split_screenshot_uri:
  assumes "\<forall>k. take 3 (drop k name) \<noteq> ''://''"
  shows "split_on ''://'' (''screenshot://'' @ name) = [''screenshot'', name]"
proof -
  have "split_on ''://'' name = [name]"
    using assms by (intro split_on_absent) (simp_all add: numeral_3_eq_3)
  then show ?thesis by (simp add: split_on.simps)
qed

lemma readResource_stored:
  assumes "\<forall>k. take 3 (drop k name) \<noteq> ''://''"
    and "map_of (screenshots s) name = Some shot"
    and "shot \<noteq> []"
  shows "readResource (''screenshot://'' @ name) s =
           Inr (BlobContents (''screenshot://'' @ name) ''image/png'' shot)"
  using assms(2,3) split_screenshot_uri [OF assms(1)]
  by (simp add: readResource_def find_screenshot_def startsWith_def)

text \<open>
  Claim C6, at the input where the code departs from it. The screenshot tool stores a
  capture under the name \<^verbatim>\<open>https://example.com\<close>; the listing then offers the URI
  \<^verbatim>\<open>screenshot://https://example.com\<close>, and reading that URI throws
  \<^verbatim>\<open>Resource not found\<close> although the name is stored: the reader looks up the second
  piece of the URI split at \<^verbatim>\<open>://\<close>, which is \<^verbatim>\<open>https\<close>.
\<close>

theorem readResource_listed_uri_not_found:
  "map_of (screenshots url_named_state) ''https://example.com'' = Some ''cGFnZQ=='' \<and>
   map uri (listResources url_named_state) =
     [''console://logs'', ''screenshot://https://example.com''] \<and>
   readResource ''screenshot://https://example.com'' url_named_state =
     Inl ''Resource not found: screenshot://https://example.com''"
  by (simp add: url_named_state_eq listResources_def readResource_def find_screenshot_def
        startsWith_def split_url_named)

section \<open>Declared and dispatched tools\<close>

lemma switch_case_names:
  "(switch_case n \<noteq> None) =
   (n \<in> set (map tool_name listTools) \<or> n = ''puppeteer_get_json'')"
  by (simp add: switch_case_def listTools_def TOOLS_def)

text \<open>
  Claim C9, at the input where the code departs from it. The \<^verbatim>\<open>switch\<close> has a case
  for \<^verbatim>\<open>puppeteer_get_json\<close>, the structured-data extraction tool, and the tool list
  that the list-tools operation returns has fourteen entries, none of them with that
  name.
\<close>

theorem get_json_not_declared:
  "switch_case ''puppeteer_get_json'' = Some GetJson \<and>
   ''puppeteer_get_json'' \<notin> set (map tool_name listTools) \<and>
   length listTools = 14"
  by (simp add: switch_case_def listTools_def TOOLS_def)

section \<open>Console events\<close>

lemma createNewBrowserSession_subscribes:
  "createNewBrowserSession E sid s = (Inr sess, s') \<Longrightarrow>
   \<exists>p. page sess = Some p \<and> listeners s' = listeners s @ [(p, sid)]"
  by (auto simp: createNewBrowserSession_def issue_def Let_def
           split: sum.splits list.splits option.splits)

lemma capture_events_logs:
  "consoleLogs (capture_events evs s) = consoleLogs s @ map entry_of evs \<and>
   notifications (capture_events evs s) =
     notifications s @ map (\<lambda>ev. CloudMessage (entry_of ev)) evs"
  unfolding capture_events_def
  by (induction evs arbitrary: s) (simp_all add: consoleListener_def entry_of_def)

lemma split_on_char_plain:
  "c \<notin> set x \<Longrightarrow> split_on [c] x = [x]"
  by (induction x) (auto simp: split_on.simps)

lemma split_on_char_append:
  "c \<notin> set x \<Longrightarrow> split_on [c] (x @ c # r) = x # split_on [c] r"
  by (induction x) (auto simp: split_on.simps)

lemma split_join_lines:
  "xs \<noteq> [] \<Longrightarrow> \<forall>x\<in>set xs. c \<notin> set x \<Longrightarrow> split_on [c] (join_with [c] xs) = xs"
proof (induction xs)
  case Nil
  then show ?case by simp
next
  case (Cons x xs)
  show ?case
  proof (cases xs)
    case Nil
    with Cons.prems show ?thesis by (simp add: split_on_char_plain)
  next
    case (Cons y ys)
    with Cons.IH Cons.prems have "split_on [c] (join_with [c] (y # ys)) = y # ys"
      by simp
    with Cons Cons.prems show ?thesis by (simp add: split_on_char_append)
  qed
qed

lemma fold_listeners:
  "fold (\<lambda>l t. if fst l = p then f (snd l) t else t) ls s =
   fold (\<lambda>l. f (snd l)) (filter (\<lambda>l. fst l = p) ls) s"
  by (induction ls arbitrary: s) simp_all

lemma emitConsole_single:
  "filter (\<lambda>l. fst l = p) (listeners s) = [(p, sid)] \<Longrightarrow>
   emitConsole p ty txt s = consoleListener sid ty txt s"
  by (simp add: emitConsole_def
        fold_listeners [where f = "\<lambda>i. consoleListener i ty txt"])

text \<open>
  Claim C8 fails where a console message spans lines: after one captured event whose
  text is \<^verbatim>\<open>a\<close>, a newline and \<^verbatim>\<open>b\<close>, the console-log resource reads as two lines,
  and the second one carries no session tag.
\<close>

theorem console_lines_counterexample:
  "readResource ''console://logs'' (capture_events [multiline_event] initial_state) =
     Inr (TextContents ''console://logs'' ''text/plain''
            (''[Session s1][log] a'' @ newline @ ''b'')) \<and>
   split_on newline (''[Session s1][log] a'' @ newline @ ''b'') =
     [''[Session s1][log] a'', ''b'']"
  by (simp add: readResource_def capture_events_def consoleListener_def logEntry_def
        multiline_event_def initial_state_def js_str_def newline_def split_on.simps)

text \<open>
  Claim C8, amended. Every console event that a session's subscription captures
  appends exactly one entry \<^verbatim>\<open>[Session <id>][<level>] <text>\<close>, with the identifier of
  that session, to the end of the console log, and sends one console-message
  notification carrying the same line. Reading the console-log resource after the
  captures returns the earlier entries and then one entry per capture, in capture
  order, joined by newline characters. On an empty log, after at least one capture
  and when no entry contains a newline character, these are exactly the lines of
  the text: N lines for N events.
\<close>

theorem console_captures:
  "consoleLogs (consoleListener sid ty txt s) =
     consoleLogs s @ [''[Session '' @ js_str sid @ '']['' @ ty @ ''] '' @ txt] \<and>
   notifications (consoleListener sid ty txt s) =
     notifications s @ [CloudMessage (''[Session '' @ js_str sid @ '']['' @ ty @ ''] '' @ txt)] \<and>
   entry_of ev =
     ''[Session '' @ js_str (event_session ev) @ '']['' @ event_type ev @ ''] '' @ event_text ev \<and>
   consoleLogs (capture_events evs s) = consoleLogs s @ map entry_of evs \<and>
   notifications (capture_events evs s) =
     notifications s @ map (\<lambda>ev. CloudMessage (entry_of ev)) evs \<and>
   readResource ''console://logs'' (capture_events evs s) =
     Inr (TextContents ''console://logs'' ''text/plain''
            (join_with newline (consoleLogs s @ map entry_of evs))) \<and>
   (consoleLogs s = [] \<and> evs \<noteq> [] \<and> (\<forall>ev\<in>set evs. CHR 0x0A \<notin> set (entry_of ev)) \<longrightarrow>
      split_on newline (join_with newline (consoleLogs (capture_events evs s))) =
        map entry_of evs)"
proof -
  have lines:
    "consoleLogs s = [] \<Longrightarrow> evs \<noteq> [] \<Longrightarrow> \<forall>ev\<in>set evs. CHR 0x0A \<notin> set (entry_of ev) \<Longrightarrow>
     split_on newline (join_with newline (consoleLogs (capture_events evs s))) =
       map entry_of evs"
    using split_join_lines [of "map entry_of evs" "CHR 0x0A"]
    by (simp add: capture_events_logs newline_def)
  have one:
    "consoleLogs (consoleListener sid ty txt s) =
       consoleLogs s @ [''[Session '' @ js_str sid @ '']['' @ ty @ ''] '' @ txt] \<and>
     notifications (consoleListener sid ty txt s) =
       notifications s @ [CloudMessage (''[Session '' @ js_str sid @ '']['' @ ty @ ''] '' @ txt)]"
    by (simp add: consoleListener_def logEntry_def)
  have entry:
    "entry_of ev =
       ''[Session '' @ js_str (event_session ev) @ '']['' @ event_type ev @ ''] ''
       @ event_text ev"
    by (simp add: entry_of_def logEntry_def)
  have read:
    "readResource ''console://logs'' (capture_events evs s) =
       Inr (TextContents ''console://logs'' ''text/plain''
              (join_with newline (consoleLogs s @ map entry_of evs)))"
    by (simp add: readResource_def capture_events_logs)
  show ?thesis
    using lines one entry read capture_events_logs [of evs s] by blast
qed

theorem console_captures_witness:
  "consoleLogs initial_state = [] \<and> two_events \<noteq> [] \<and>
   list_all (\<lambda>ev. CHR 0x0A \<notin> set (entry_of ev)) two_events \<and>
   split_on newline
     (join_with newline (consoleLogs (capture_events two_events initial_state))) =
     [''[Session a][log] x'', ''[Session b][error] y'']"
proof -
  have h: "consoleLogs initial_state = [] \<and> two_events \<noteq> [] \<and>
           (\<forall>ev\<in>set two_events. CHR 0x0A \<notin> set (entry_of ev))"
    by (simp add: two_events_def initial_state_def entry_of_def logEntry_def js_str_def)
  have "split_on newline
          (join_with newline (consoleLogs (capture_events two_events initial_state))) =
        map entry_of two_events"
    using h console_captures [where s=initial_state and evs=two_events]
    by blast
  then show ?thesis
    using h by (simp add: two_events_def entry_of_def logEntry_def js_str_def)
qed

section \<open>The screenshot tool\<close>

lemma switch_screenshot: "switch_case ''puppeteer_screenshot'' = Some Screenshot"
  by (simp add: switch_case_def)

text \<open>
  Where a screenshot call reaches the selector lookup (its default session is
  resolved with a page and the viewport request has succeeded) and the lookup finds
  no element, the call returns the failure-flagged result whose text is
  \<^verbatim>\<open>Element not found: \<close> followed by the selector, the screenshot map and the
  console log are what they were before the call, and no notification is sent.
\<close>

lemma selector_not_found_result:
  assumes "defaultSession E ''puppeteer_screenshot'' a s = (Inr (Some sess), s1)"
    and "page sess = Some p"
    and "page_setViewport E (calls s1) p (screenshot_width a) (screenshot_height a) = Inr ()"
    and "truthy (arg_selector a)"
    and "page_query E (calls s1 @ [SetViewport p (screenshot_width a) (screenshot_height a)]) p
           (js_str (arg_selector a)) = Inr None"
  shows "fst (handleToolCall E ''puppeteer_screenshot'' a s) =
           Inr (text_result (''Element not found: '' @ js_str (arg_selector a)) True) \<and>
         screenshots (snd (handleToolCall E ''puppeteer_screenshot'' a s)) = screenshots s \<and>
         consoleLogs (snd (handleToolCall E ''puppeteer_screenshot'' a s)) = consoleLogs s \<and>
         notifications (snd (handleToolCall E ''puppeteer_screenshot'' a s)) = notifications s"
proof -
  have f: "screenshots s1 = screenshots s \<and> consoleLogs s1 = consoleLogs s \<and>
           notifications s1 = notifications s"
    using defaultSession_frame [of E "''puppeteer_screenshot''" a s] assms(1) by simp
  have "handleToolCall E ''puppeteer_screenshot'' a s = puppeteer_screenshot E sess a s1"
    using assms(1) by (simp add: handleToolCall_def switch_screenshot)
  moreover have "puppeteer_screenshot E sess a s1 =
      (Inr (text_result (''Element not found: '' @ js_str (arg_selector a)) True),
       (issue (Query p (js_str (arg_selector a)))
          ((issue (SetViewport p (screenshot_width a) (screenshot_height a)) s1)
             \<lparr>viewports :=
                AList.update p (screenshot_width a, screenshot_height a) (viewports s1)\<rparr>)))"
    using assms(2-5)
    by (simp add: puppeteer_screenshot_def on_page_def capture_def issue_def Let_def truthy_def)
  ultimately show ?thesis using f by (simp add: issue_def)
qed


lemma capture_calls:
  "\<exists>rest. calls (snd (capture E p sel s)) = calls s @ rest \<and> list_all is_capture_call rest"
  by (simp add: capture_def issue_def Let_def is_capture_call_def split: sum.splits option.splits)

lemma puppeteer_screenshot_calls:
  "page sess = Some p \<Longrightarrow>
   \<exists>rest. calls (snd (puppeteer_screenshot E sess a s)) =
            calls s @ SetViewport p (screenshot_width a) (screenshot_height a) # rest \<and>
          list_all is_capture_call rest \<and>
          (rest \<noteq> [] \<longrightarrow> page_setViewport E (calls s) p (screenshot_width a) (screenshot_height a) = Inr ())"
proof (cases "page_setViewport E (calls s) p (screenshot_width a) (screenshot_height a)")
  case (Inl e)
  assume "page sess = Some p"
  with Inl show ?thesis
    by (simp add: puppeteer_screenshot_def on_page_def issue_def Let_def)
next
  case (Inr u)
  assume pg: "page sess = Some p"
  let ?s1 = "(issue (SetViewport p (screenshot_width a) (screenshot_height a)) s)
               \<lparr>viewports := AList.update p (screenshot_width a, screenshot_height a) (viewports s)\<rparr>"
  obtain rest where r: "calls (snd (capture E p (arg_selector a) ?s1)) = calls ?s1 @ rest"
      "list_all is_capture_call rest"
    using capture_calls [of E p "arg_selector a" ?s1] by blast
  have "calls (snd (puppeteer_screenshot E sess a s)) = calls (snd (capture E p (arg_selector a) ?s1))"
    using pg Inr
    by (simp add: puppeteer_screenshot_def on_page_def Let_def split_beta split: sum.splits)
  with r Inr show ?thesis by (simp add: issue_def)
qed

text \<open>
  Claim C10. In a screenshot call whose default session resolves with a page, the
  first request after the resolution sets the viewport of that page to the requested
  width and height, 800 and 600 where the call gives none; the requests after it are
  the capture step's, and there are some only if the viewport request succeeded. So
  when the call ends with the selector-not-found result, the viewport recorded for
  the page is the requested one, while the screenshot map and the console log are
  unchanged.
\<close>

theorem screenshot_viewport_first:
  assumes "defaultSession E ''puppeteer_screenshot'' a s = (Inr (Some sess), s1)"
    and "page sess = Some p"
  shows "(\<exists>rest. calls (snd (handleToolCall E ''puppeteer_screenshot'' a s)) =
             calls s1 @ SetViewport p (case arg_width a of None \<Rightarrow> 800 | Some w \<Rightarrow> w)
                                      (case arg_height a of None \<Rightarrow> 600 | Some h \<Rightarrow> h) # rest \<and>
           list_all is_capture_call rest \<and>
           (rest \<noteq> [] \<longrightarrow>
              page_setViewport E (calls s1) p (screenshot_width a) (screenshot_height a) = Inr ())) \<and>
         (page_setViewport E (calls s1) p (screenshot_width a) (screenshot_height a) = Inr () \<and>
          truthy (arg_selector a) \<and>
          page_query E (calls s1 @ [SetViewport p (screenshot_width a) (screenshot_height a)]) p
            (js_str (arg_selector a)) = Inr None \<longrightarrow>
            fst (handleToolCall E ''puppeteer_screenshot'' a s) =
              Inr (text_result (''Element not found: '' @ js_str (arg_selector a)) True) \<and>
            map_of (viewports (snd (handleToolCall E ''puppeteer_screenshot'' a s))) p =
              Some (case arg_width a of None \<Rightarrow> 800 | Some w \<Rightarrow> w,
                    case arg_height a of None \<Rightarrow> 600 | Some h \<Rightarrow> h) \<and>
            screenshots (snd (handleToolCall E ''puppeteer_screenshot'' a s)) = screenshots s \<and>
            consoleLogs (snd (handleToolCall E ''puppeteer_screenshot'' a s)) = consoleLogs s)"
proof -
  have f: "screenshots s1 = screenshots s \<and> consoleLogs s1 = consoleLogs s"
    using defaultSession_frame [of E "''puppeteer_screenshot''" a s] assms(1) by simp
  have h: "handleToolCall E ''puppeteer_screenshot'' a s = puppeteer_screenshot E sess a s1"
    using assms(1) by (simp add: handleToolCall_def switch_screenshot)
  have nf: "page_setViewport E (calls s1) p (screenshot_width a) (screenshot_height a) = Inr () \<Longrightarrow>
          truthy (arg_selector a) \<Longrightarrow>
          page_query E (calls s1 @ [SetViewport p (screenshot_width a) (screenshot_height a)]) p
            (js_str (arg_selector a)) = Inr None \<Longrightarrow>
          puppeteer_screenshot E sess a s1 =
      (Inr (text_result (''Element not found: '' @ js_str (arg_selector a)) True),
       (issue (Query p (js_str (arg_selector a)))
          ((issue (SetViewport p (screenshot_width a) (screenshot_height a)) s1)
             \<lparr>viewports := AList.update p (screenshot_width a, screenshot_height a) (viewports s1)\<rparr>)))"
    using assms(2)
    by (simp add: puppeteer_screenshot_def on_page_def capture_def issue_def Let_def truthy_def)
  show ?thesis
    using puppeteer_screenshot_calls [OF assms(2), of E a s1] h f nf
    by (auto simp: issue_def update_conv' screenshot_width_def screenshot_height_def)
qed

theorem screenshot_viewport_first_witness:
  "defaultSession sample_env ''puppeteer_screenshot'' missing_args initial_state =
     (Inr (Some \<lparr>browser = 0, page = Some 0\<rparr>),
      initial_state\<lparr>browsers := [(Some ''s1'', \<lparr>browser = 0, page = Some 0\<rparr>)],
                     calls := [Connect, Pages 0], listeners := [(0, Some ''s1'')]\<rparr>) \<and>
   page_setViewport sample_env [Connect, Pages 0] 0 800 600 = Inr () \<and>
   truthy (arg_selector missing_args) \<and>
   page_query sample_env [Connect, Pages 0, SetViewport 0 800 600] 0 ''#missing'' = Inr None \<and>
   take 3 (calls (snd (handleToolCall sample_env ''puppeteer_screenshot'' missing_args initial_state))) =
     [Connect, Pages 0, SetViewport 0 800 600] \<and>
   fst (handleToolCall sample_env ''puppeteer_screenshot'' missing_args initial_state) =
     Inr (text_result ''Element not found: #missing'' True) \<and>
   map_of (viewports (snd (handleToolCall sample_env ''puppeteer_screenshot'' missing_args initial_state))) 0 =
     Some (800, 600) \<and>
   screenshots (snd (handleToolCall sample_env ''puppeteer_screenshot'' missing_args initial_state)) = []"
proof -
  have d: "defaultSession sample_env ''puppeteer_screenshot'' missing_args initial_state =
     (Inr (Some \<lparr>browser = 0, page = Some 0\<rparr>),
      initial_state\<lparr>browsers := [(Some ''s1'', \<lparr>browser = 0, page = Some 0\<rparr>)],
                     calls := [Connect, Pages 0], listeners := [(0, Some ''s1'')]\<rparr>)"
    by (simp add: defaultSession_def createNewBrowserSession_def issue_def sample_env_def
          missing_args_def sample_args_def initial_state_def Let_def)
  have w: "screenshot_width missing_args = 800 \<and> screenshot_height missing_args = 600 \<and>
           js_str (arg_selector missing_args) = ''#missing'' \<and>
           arg_width missing_args = None \<and> arg_height missing_args = None"
    by (simp add: screenshot_width_def screenshot_height_def missing_args_def sample_args_def js_str_def)
  have v: "page_setViewport sample_env [Connect, Pages 0] 0 800 600 = Inr ()"
    by (simp add: sample_env_def)
  have t: "truthy (arg_selector missing_args)"
    by (simp add: truthy_def missing_args_def)
  have q: "page_query sample_env [Connect, Pages 0, SetViewport 0 800 600] 0 ''#missing'' = Inr None"
    by (simp add: sample_env_def)
  show ?thesis
    using d v t q w
      screenshot_viewport_first [where E=sample_env and a=missing_args and s=initial_state
        and p=0 and sess="\<lparr>browser = 0, page = Some 0\<rparr>"
        and ?s1.0="initial_state\<lparr>browsers := [(Some ''s1'', \<lparr>browser = 0, page = Some 0\<rparr>)],
                     calls := [Connect, Pages 0], listeners := [(0, Some ''s1'')]\<rparr>"]
    by (auto simp: initial_state_def)
qed

section \<open>Failures of the tool-specific action\<close>

text \<open>
  Every case of the \<^verbatim>\<open>switch\<close> but the navigation and the screenshot tool is a
  \<^verbatim>\<open>try\<close> whose handler returns a result: once the default session is resolved, the
  call returns.
\<close>

lemma try_catch_returns: "\<exists>r. fst (try_catch b h) = Inr r"
  by (simp add: try_catch_def split: prod.splits sum.splits)

lemma wrapped_tools_return:
  assumes "name \<noteq> ''puppeteer_navigate''" and "name \<noteq> ''puppeteer_screenshot''"
    and "fst (defaultSession E name a s) = Inr d"
  shows "\<exists>r. fst (handleToolCall E name a s) = Inr r"
proof (cases d)
  case None
  with assms(3) show ?thesis
    by (simp add: handleToolCall_def split_beta puppeteer_parallel_sessions_def try_catch_returns)
next
  case (Some sess)
  have n: "switch_case name \<noteq> Some Navigate" "switch_case name \<noteq> Some Screenshot"
    using assms(1,2) by (auto simp: switch_case_def split: if_splits)
  show ?thesis
  proof (cases "switch_case name")
    case None
    with Some assms(3) show ?thesis by (simp add: handleToolCall_def split_beta)
  next
    case c: (Some t)
    with n Some assms(3) show ?thesis
      by (cases t)
        (simp_all add: handleToolCall_def split_beta try_catch_returns
           puppeteer_create_session_def puppeteer_click_def puppeteer_fill_def
           puppeteer_evaluate_def puppeteer_get_json_def puppeteer_get_content_def
           puppeteer_parallel_sessions_def notion_read_page_def notion_update_page_def
           notion_append_content_def notion_read_comments_def notion_add_comment_def
           notion_add_to_database_def)
  qed
qed

text \<open>
  A failure of the navigation request, or of the viewport request of the screenshot
  tool, leaves \<^verbatim>\<open>handleToolCall\<close> as it is, whatever the provider and the state.
\<close>

lemma navigate_throws:
  assumes "defaultSession E ''puppeteer_navigate'' a s = (Inr (Some sess), s1)"
    and "page sess = Some p"
    and "page_goto E (calls s1) p (arg_url a) = Inl e"
  shows "fst (handleToolCall E ''puppeteer_navigate'' a s) = Inl e"
  using assms
  by (simp add: handleToolCall_def switch_case_def puppeteer_navigate_def on_page_def)

lemma screenshot_throws:
  assumes "defaultSession E ''puppeteer_screenshot'' a s = (Inr (Some sess), s1)"
    and "page sess = Some p"
    and "page_setViewport E (calls s1) p (screenshot_width a) (screenshot_height a) = Inl e"
  shows "fst (handleToolCall E ''puppeteer_screenshot'' a s) = Inl e"
  using assms
  by (simp add: handleToolCall_def switch_case_def puppeteer_screenshot_def on_page_def Let_def)

text \<open>
  Claim C1, at the inputs where the code departs from it. The navigation tool is not
  wrapped in a \<^verbatim>\<open>try\<close>: when \<^verbatim>\<open>page.goto\<close> fails, \<^verbatim>\<open>handleToolCall\<close> throws the
  provider's error. Neither is the screenshot tool: a failing \<^verbatim>\<open>page.setViewport\<close> is
  thrown as well. The click tool, on the same failing page, returns the
  failure-flagged result with the message, as the claim says every tool does.
\<close>

theorem navigate_and_screenshot_throw:
  "fst (handleToolCall sample_env ''puppeteer_navigate'' (sample_args\<lparr>arg_url := ''bad://''\<rparr>)
          initial_state) = Inl ''net::ERR_ABORTED'' \<and>
   fst (handleToolCall failing_page_env ''puppeteer_screenshot'' sample_args initial_state) =
     Inl ''Target closed'' \<and>
   fst (handleToolCall failing_page_env ''puppeteer_click'' (sample_args\<lparr>arg_selector := Some ''#go''\<rparr>)
          initial_state) = Inr (text_result ''Failed to click #go: Target closed'' True)"
  by (simp add: handleToolCall_def defaultSession_def createNewBrowserSession_def
        switch_case_def puppeteer_navigate_def puppeteer_screenshot_def puppeteer_click_def
        try_catch_def on_page_def issue_def js_str_def
        failing_page_env_def sample_env_def sample_args_def initial_state_def Let_def)

section \<open>Session creation\<close>

text \<open>
  The tools that work on the default session neither connect nor touch the registry
  or the subscriptions: a call of one of them under a \<^verbatim>\<open>sessionId\<close> that is not in
  the registry opens one connection, stores its first page under the \<^verbatim>\<open>sessionId\<close>
  and subscribes to it, and a call under a registered \<^verbatim>\<open>sessionId\<close> opens none.
\<close>

lemma capture_registry:
  "browsers (snd (capture E p sel s)) = browsers s \<and>
   listeners (snd (capture E p sel s)) = listeners s \<and>
   connections (snd (capture E p sel s)) = connections s"
  by (simp add: capture_def issue_def connections_def Let_def split: option.splits sum.splits)

lemma puppeteer_screenshot_registry:
  "browsers (snd (puppeteer_screenshot E sess a s)) = browsers s \<and>
   listeners (snd (puppeteer_screenshot E sess a s)) = listeners s \<and>
   connections (snd (puppeteer_screenshot E sess a s)) = connections s"
  by (simp add: puppeteer_screenshot_def on_page_def issue_def connections_def Let_def split_beta
        capture_registry [unfolded connections_def] split: option.splits sum.splits)

lemma puppeteer_navigate_registry:
  "browsers (snd (puppeteer_navigate E sess a s)) = browsers s \<and>
   listeners (snd (puppeteer_navigate E sess a s)) = listeners s \<and>
   connections (snd (puppeteer_navigate E sess a s)) = connections s"
  by (simp add: puppeteer_navigate_def try_catch_snd on_page_def issue_def connections_def Let_def split_beta
        split: option.splits sum.splits)

lemma puppeteer_click_registry:
  "browsers (snd (puppeteer_click E sess a s)) = browsers s \<and>
   listeners (snd (puppeteer_click E sess a s)) = listeners s \<and>
   connections (snd (puppeteer_click E sess a s)) = connections s"
  by (simp add: puppeteer_click_def try_catch_snd on_page_def issue_def connections_def Let_def split_beta
        split: option.splits sum.splits)

lemma puppeteer_fill_registry:
  "browsers (snd (puppeteer_fill E sess a s)) = browsers s \<and>
   listeners (snd (puppeteer_fill E sess a s)) = listeners s \<and>
   connections (snd (puppeteer_fill E sess a s)) = connections s"
  by (simp add: puppeteer_fill_def try_catch_snd on_page_def issue_def connections_def Let_def split_beta
        split: option.splits sum.splits)

lemma puppeteer_evaluate_registry:
  "browsers (snd (puppeteer_evaluate E sess a s)) = browsers s \<and>
   listeners (snd (puppeteer_evaluate E sess a s)) = listeners s \<and>
   connections (snd (puppeteer_evaluate E sess a s)) = connections s"
  by (simp add: puppeteer_evaluate_def try_catch_snd on_page_def issue_def connections_def Let_def split_beta
        split: option.splits sum.splits)

lemma puppeteer_get_json_registry:
  "browsers (snd (puppeteer_get_json E sess a s)) = browsers s \<and>
   listeners (snd (puppeteer_get_json E sess a s)) = listeners s \<and>
   connections (snd (puppeteer_get_json E sess a s)) = connections s"
  by (simp add: puppeteer_get_json_def try_catch_snd on_page_def issue_def connections_def Let_def split_beta
        split: option.splits sum.splits)

lemma puppeteer_get_content_registry:
  "browsers (snd (puppeteer_get_content E sess a s)) = browsers s \<and>
   listeners (snd (puppeteer_get_content E sess a s)) = listeners s \<and>
   connections (snd (puppeteer_get_content E sess a s)) = connections s"
  by (simp add: puppeteer_get_content_def try_catch_snd on_page_def issue_def connections_def Let_def split_beta
        split: option.splits sum.splits)

lemma notion_read_page_registry:
  "browsers (snd (notion_read_page E a s)) = browsers s \<and>
   listeners (snd (notion_read_page E a s)) = listeners s \<and>
   connections (snd (notion_read_page E a s)) = connections s"
  by (simp add: notion_read_page_def try_catch_snd issue_def connections_def Let_def split: sum.splits)

lemma notion_update_page_registry:
  "browsers (snd (notion_update_page E a s)) = browsers s \<and>
   listeners (snd (notion_update_page E a s)) = listeners s \<and>
   connections (snd (notion_update_page E a s)) = connections s"
  by (simp add: notion_update_page_def try_catch_snd issue_def connections_def Let_def split: sum.splits)

lemma notion_append_content_registry:
  "browsers (snd (notion_append_content E a s)) = browsers s \<and>
   listeners (snd (notion_append_content E a s)) = listeners s \<and>
   connections (snd (notion_append_content E a s)) = connections s"
  by (simp add: notion_append_content_def try_catch_snd issue_def connections_def Let_def split: sum.splits)

lemma notion_read_comments_registry:
  "browsers (snd (notion_read_comments E a s)) = browsers s \<and>
   listeners (snd (notion_read_comments E a s)) = listeners s \<and>
   connections (snd (notion_read_comments E a s)) = connections s"
  by (simp add: notion_read_comments_def try_catch_snd issue_def connections_def Let_def split: sum.splits)

lemma notion_add_comment_registry:
  "browsers (snd (notion_add_comment E a s)) = browsers s \<and>
   listeners (snd (notion_add_comment E a s)) = listeners s \<and>
   connections (snd (notion_add_comment E a s)) = connections s"
  by (simp add: notion_add_comment_def try_catch_snd issue_def connections_def Let_def split: sum.splits)

lemma notion_add_to_database_registry:
  "browsers (snd (notion_add_to_database E a s)) = browsers s \<and>
   listeners (snd (notion_add_to_database E a s)) = listeners s \<and>
   connections (snd (notion_add_to_database E a s)) = connections s"
  by (simp add: notion_add_to_database_def try_catch_snd issue_def connections_def Let_def split: sum.splits)

lemmas tool_registry =
  puppeteer_screenshot_registry
  puppeteer_navigate_registry
  puppeteer_click_registry
  puppeteer_fill_registry
  puppeteer_evaluate_registry
  puppeteer_get_json_registry
  puppeteer_get_content_registry
  notion_read_page_registry
  notion_update_page_registry
  notion_append_content_registry
  notion_read_comments_registry
  notion_add_comment_registry
  notion_add_to_database_registry

lemma single_session_tools_registry:
  assumes "name \<noteq> ''puppeteer_parallel_sessions''" and "name \<noteq> ''puppeteer_create_session''"
    and "defaultSession E name a s = (Inr d, s1)"
  shows "browsers (snd (handleToolCall E name a s)) = browsers s1 \<and>
         listeners (snd (handleToolCall E name a s)) = listeners s1 \<and>
         connections (snd (handleToolCall E name a s)) = connections s1"
proof -
  have "d \<noteq> None"
  proof (cases "map_of (browsers s) (arg_sessionId a)")
    case None
    with assms(1,3) show ?thesis
      by (auto simp: defaultSession_def split: sum.splits prod.splits)
  next
    case (Some x)
    with assms(1) have "defaultSession E name a s = (Inr (Some x), s)"
      by (simp add: defaultSession_def)
    with assms(3) have "d = Some x" by simp
    then show ?thesis by simp
  qed
  then obtain sess where d: "d = Some sess" by blast
  have n: "switch_case name \<noteq> Some ParallelSessions" "switch_case name \<noteq> Some CreateSession"
    using assms(1,2) by (auto simp: switch_case_def split: if_splits)
  show ?thesis
  proof (cases "switch_case name")
    case None
    with d assms(3) show ?thesis by (simp add: handleToolCall_def)
  next
    case (Some t)
    with n d assms(3) show ?thesis
      by (cases t) (simp_all add: handleToolCall_def tool_registry)
  qed
qed

lemma default_session_created_once:
  assumes "name \<noteq> ''puppeteer_parallel_sessions''" and "name \<noteq> ''puppeteer_create_session''"
    and "map_of (browsers s) (arg_sessionId a) = None"
    and "puppeteer_connect E (calls s) = Inr b"
    and "browser_pages E (calls s @ [Connect]) b = Inr (p # ps)"
  shows "connections (snd (handleToolCall E name a s)) = Suc (connections s) \<and>
         map_of (browsers (snd (handleToolCall E name a s))) (arg_sessionId a) =
           Some \<lparr>browser = b, page = Some p\<rparr> \<and>
         listeners (snd (handleToolCall E name a s)) = listeners s @ [(p, arg_sessionId a)]"
proof -
  let ?s1 = "s\<lparr>calls := calls s @ [Connect, Pages b],
               browsers := AList.update (arg_sessionId a) \<lparr>browser = b, page = Some p\<rparr> (browsers s),
               listeners := listeners s @ [(p, arg_sessionId a)]\<rparr>"
  have "defaultSession E name a s = (Inr (Some \<lparr>browser = b, page = Some p\<rparr>), ?s1)"
    using assms by (simp add: defaultSession_def createNewBrowserSession_def issue_def Let_def)
  then show ?thesis
    using single_session_tools_registry [OF assms(1,2), of E a s _ ?s1]
    by (simp add: connections_def update_conv')
qed

lemma default_session_reused:
  assumes "name \<noteq> ''puppeteer_parallel_sessions''" and "name \<noteq> ''puppeteer_create_session''"
    and "map_of (browsers s) (arg_sessionId a) = Some sess"
  shows "connections (snd (handleToolCall E name a s)) = connections s \<and>
         browsers (snd (handleToolCall E name a s)) = browsers s \<and>
         listeners (snd (handleToolCall E name a s)) = listeners s"
proof -
  have "defaultSession E name a s = (Inr (Some sess), s)"
    using assms by (simp add: defaultSession_def)
  then show ?thesis
    using single_session_tools_registry [OF assms(1,2), of E a s _ s] by simp
qed

lemma createNewBrowserSession_connections:
  "connections (snd (createNewBrowserSession E sid s)) = Suc (connections s)"
  by (simp add: createNewBrowserSession_def connections_def issue_def Let_def
        split: sum.splits list.splits option.splits)

text \<open>
  The create-session tool opens a connection of its own after the default session is
  resolved.
\<close>

lemma create_session_connections:
  assumes "defaultSession E ''puppeteer_create_session'' a s = (Inr d, s1)"
  shows "connections (snd (handleToolCall E ''puppeteer_create_session'' a s)) =
           Suc (connections s1)"
proof -
  have "d \<noteq> None"
  proof (cases "map_of (browsers s) (arg_sessionId a)")
    case None
    with assms show ?thesis
      by (auto simp: defaultSession_def split: sum.splits prod.splits)
  next
    case (Some x)
    then have "defaultSession E ''puppeteer_create_session'' a s = (Inr (Some x), s)"
      by (simp add: defaultSession_def)
    with assms have "d = Some x" by simp
    then show ?thesis by simp
  qed
  then obtain sess where "d = Some sess" by blast
  with assms show ?thesis
    using createNewBrowserSession_connections [of E "arg_sessionId a" s1]
    by (simp add: handleToolCall_def switch_case_def puppeteer_create_session_def
          try_catch_snd split_beta split: sum.splits)
qed

text \<open>
  Claim C2, at the input where the code departs from it. A create-session call whose
  \<^verbatim>\<open>sessionId\<close> is not in the registry opens two connections: one when the default
  session is resolved before the \<^verbatim>\<open>switch\<close>, and one in the tool's own case. The
  registry keeps the second pair only; the first connection is left with its console
  subscription installed.
\<close>

theorem create_session_connects_twice:
  "map_of (browsers initial_state) (arg_sessionId sample_args) = None \<and>
   handleToolCall sample_env ''puppeteer_create_session'' sample_args initial_state =
     (Inr (text_result ''Created new browser session'' False),
      initial_state\<lparr>browsers := [(Some ''s1'', \<lparr>browser = 1, page = Some 1\<rparr>)],
                     calls := [Connect, Pages 0, Connect, Pages 1],
                     listeners := [(0, Some ''s1''), (1, Some ''s1'')]\<rparr>)"
  by (simp add: handleToolCall_def defaultSession_def createNewBrowserSession_def
        switch_case_def puppeteer_create_session_def try_catch_def issue_def
        sample_env_def sample_args_def initial_state_def Let_def)

section \<open>Unknown tools\<close>

text \<open>
  For a tool name outside the dispatched set the call returns the failure-flagged
  result \<^verbatim>\<open>Unknown tool: <name>\<close> whenever its default session resolves: when the
  \<^verbatim>\<open>sessionId\<close> is in the registry (the state is then unchanged), and when it is not
  and a new session is created without failure.
\<close>

lemma unknown_tool_registered:
  assumes "switch_case name = None"
    and "map_of (browsers s) (arg_sessionId a) = Some sess"
  shows "handleToolCall E name a s = (Inr (text_result (''Unknown tool: '' @ name) True), s)"
proof -
  have "name \<noteq> ''puppeteer_parallel_sessions''"
    using assms(1) by (auto simp: switch_case_def)
  then show ?thesis
    using assms by (simp add: handleToolCall_def defaultSession_def)
qed

lemma unknown_tool_created:
  assumes "switch_case name = None"
    and "map_of (browsers s) (arg_sessionId a) = None"
    and "createNewBrowserSession E (arg_sessionId a) s = (Inr sess, s1)"
  shows "handleToolCall E name a s = (Inr (text_result (''Unknown tool: '' @ name) True), s1)"
proof -
  have "name \<noteq> ''puppeteer_parallel_sessions''"
    using assms(1) by (auto simp: switch_case_def)
  then show ?thesis
    using assms by (simp add: handleToolCall_def defaultSession_def)
qed

text \<open>
  The default session is created before the \<^verbatim>\<open>switch\<close> and outside every \<^verbatim>\<open>try\<close>:
  whatever the tool name but the bulk tool's, a failure to create it is thrown.
\<close>

lemma default_session_failure_thrown:
  assumes "name \<noteq> ''puppeteer_parallel_sessions''"
    and "map_of (browsers s) (arg_sessionId a) = None"
    and "createNewBrowserSession E (arg_sessionId a) s = (Inl e, s1)"
  shows "handleToolCall E name a s = (Inl e, s1)"
  using assms by (simp add: handleToolCall_def defaultSession_def)

text \<open>
  Claim C3, at the input where the code departs from it. The name \<^verbatim>\<open>no_such_tool\<close>
  is outside the dispatched set. With an empty registry and a provider that cannot
  be reached, the call throws the connection error: the default session is created
  before the \<^verbatim>\<open>switch\<close>, outside every \<^verbatim>\<open>try\<close>. With the session \<^verbatim>\<open>s1\<close> registered,
  the same call on the same provider returns the failure-flagged
  \<^verbatim>\<open>Unknown tool\<close> result, and the create-session tool, whose own session creation is
  inside a \<^verbatim>\<open>try\<close>, returns the connection failure as a failure-flagged result.
\<close>

theorem unknown_tool_unreachable_provider:
  "switch_case ''no_such_tool'' = None \<and>
   map_of (browsers initial_state) (arg_sessionId sample_args) = None \<and>
   fst (handleToolCall unreachable_env ''no_such_tool'' sample_args initial_state) =
     Inl ''connect ECONNREFUSED'' \<and>
   fst (handleToolCall unreachable_env ''no_such_tool'' sample_args registered_state) =
     Inr (text_result ''Unknown tool: no_such_tool'' True) \<and>
   fst (handleToolCall unreachable_env ''puppeteer_create_session'' sample_args
          registered_state) =
     Inr (text_result ''Failed to create browser session: connect ECONNREFUSED'' True)"
  by (simp add: handleToolCall_def defaultSession_def createNewBrowserSession_def
        switch_case_def puppeteer_create_session_def try_catch_def issue_def
        unreachable_env_def sample_env_def sample_args_def registered_state_def
        initial_state_def Let_def)

section \<open>Bulk parallel navigation\<close>

lemma handleToolCall_parallel:
  "handleToolCall E ''puppeteer_parallel_sessions'' a s = puppeteer_parallel_sessions E a s"
  by (simp add: handleToolCall_def defaultSession_def)

text \<open>The bulk call never throws.\<close>

lemma parallel_sessions_returns:
  "\<exists>r. fst (handleToolCall E ''puppeteer_parallel_sessions'' a s) = Inr r"
  by (simp add: handleToolCall_parallel puppeteer_parallel_sessions_def try_catch_returns)

text \<open>
  What an item settles as: it is rejected exactly when its session cannot be created;
  otherwise its entry carries the text that the provider extracted from the page of
  the new session after the navigation, or the message of the failed navigation or
  extraction.
\<close>

lemma parallel_item_rejected:
  "(fst (parallel_item E it s) = Inl e) =
   (fst (createNewBrowserSession E (item_id it) s) = Inl e)"
  by (simp add: parallel_item_def split_beta Let_def split: sum.splits option.splits)

lemma parallel_item_content:
  assumes "createNewBrowserSession E (item_id it) s = (Inr sess, s1)"
    and "page sess = Some p"
    and "page_goto E (calls s1) p (item_url it) = Inr ()"
    and "evaluate_innerText E (calls s1 @ [Goto p (item_url it)]) p = Inr c"
  shows "fst (parallel_item E it s) = Inr (ItemContent (item_id it) (item_url it) c)"
  using assms by (simp add: parallel_item_def Let_def issue_def)

lemma parallel_item_goto_error:
  assumes "createNewBrowserSession E (item_id it) s = (Inr sess, s1)"
    and "page sess = Some p"
    and "page_goto E (calls s1) p (item_url it) = Inl e"
  shows "fst (parallel_item E it s) = Inr (ItemError (item_id it) (item_url it) e)"
  using assms by (simp add: parallel_item_def Let_def issue_def)

lemma parallel_item_text_error:
  assumes "createNewBrowserSession E (item_id it) s = (Inr sess, s1)"
    and "page sess = Some p"
    and "page_goto E (calls s1) p (item_url it) = Inr ()"
    and "evaluate_innerText E (calls s1 @ [Goto p (item_url it)]) p = Inl e"
  shows "fst (parallel_item E it s) = Inr (ItemError (item_id it) (item_url it) e)"
  using assms by (simp add: parallel_item_def Let_def issue_def)

lemma parallel_item_key:
  "fst (parallel_item E it s) = Inr r \<Longrightarrow> entry_key r = (item_id it, item_url it)"
  by (auto simp: parallel_item_def split_beta Let_def entry_key_def
           split: sum.splits option.splits)

text \<open>
  When no item is rejected, the result has one entry per pair, in the order of the
  pairs, each with the id and url of its pair, and it is not flagged as an error.
\<close>

lemma parallel_items_keys:
  "promise_all (fst (parallel_items E its s)) = Inr rs \<Longrightarrow>
   map entry_key rs = map (\<lambda>it. (item_id it, item_url it)) its"
proof (induction its arbitrary: s rs)
  case Nil
  then show ?case by auto
next
  case (Cons it its)
  show ?case
  proof (cases "fst (parallel_item E it s)")
    case (Inl e)
    with Cons.prems show ?thesis by (simp add: split_beta)
  next
    case (Inr r)
    let ?s1 = "snd (parallel_item E it s)"
    from Inr Cons.prems obtain rs' where rs':
      "promise_all (fst (parallel_items E its ?s1)) = Inr rs'" "rs = r # rs'"
      by (auto simp: split_beta split: sum.splits)
    have "map entry_key rs' = map (\<lambda>it. (item_id it, item_url it)) its"
      using rs'(1) by (rule Cons.IH)
    then show ?thesis
      using rs'(2) parallel_item_key [OF Inr] by simp
  qed
qed

lemma parallel_sessions_settled:
  assumes "promise_all
             (fst (parallel_items E (arg_sessions a)
                     (s\<lparr>stdout := stdout s @ starting_line (arg_sessions a)
                                     # map creating_line (arg_sessions a)\<rparr>))) = Inr rs"
  shows "fst (handleToolCall E ''puppeteer_parallel_sessions'' a s) =
           Inr (text_result
                  (''Parallel sessions results:'' @ newline
                   @ JSON_stringify E (JArr (map result_json rs)))
                  False) \<and>
         map entry_key rs = map (\<lambda>it. (item_id it, item_url it)) (arg_sessions a)"
proof -
  have "map entry_key rs = map (\<lambda>it. (item_id it, item_url it)) (arg_sessions a)"
    using assms by (rule parallel_items_keys)
  then show ?thesis
    using assms
    by (simp add: handleToolCall_parallel puppeteer_parallel_sessions_def try_catch_def
          split_beta Let_def)
qed

text \<open>
  When an item is rejected, the whole call returns one failure-flagged result with
  the message of the rejection, and no entry of any item.
\<close>

lemma parallel_sessions_rejected:
  assumes "promise_all
             (fst (parallel_items E (arg_sessions a)
                     (s\<lparr>stdout := stdout s @ starting_line (arg_sessions a)
                                     # map creating_line (arg_sessions a)\<rparr>))) = Inl e"
  shows "fst (handleToolCall E ''puppeteer_parallel_sessions'' a s) =
           Inr (text_result (''Failed to execute parallel sessions: '' @ e) True)"
  using assms
  by (simp add: handleToolCall_parallel puppeteer_parallel_sessions_def try_catch_def
        split_beta Let_def)

text \<open>
  Claim C4, at the input where the code departs from it. The provider accepts the
  connection of item \<^verbatim>\<open>a\<close> and refuses that of item \<^verbatim>\<open>b\<close>. The session of an item is
  created outside the item's own \<^verbatim>\<open>try\<close>, so the refusal rejects \<^verbatim>\<open>Promise.all\<close> and
  the outer \<^verbatim>\<open>catch\<close> returns one failure-flagged result without any entry, that of
  item \<^verbatim>\<open>a\<close> included. On the provider that accepts both connections the navigation
  of item \<^verbatim>\<open>b\<close> fails inside the item's \<^verbatim>\<open>try\<close>, and the call returns, unflagged, the
  success entry of \<^verbatim>\<open>a\<close> and the failure entry of \<^verbatim>\<open>b\<close>, as the claim says.
\<close>

theorem parallel_sessions_item_rejected:
  "fst (handleToolCall single_connection_env ''puppeteer_parallel_sessions'' two_items_args
          initial_state) =
     Inr (text_result ''Failed to execute parallel sessions: connect ECONNREFUSED'' True) \<and>
   fst (handleToolCall sample_env ''puppeteer_parallel_sessions'' two_items_args
          initial_state) =
     Inr (text_result
            (''Parallel sessions results:'' @ newline
             @ compact_json
                 (JArr (map result_json
                          [ItemContent (Some ''a'') ''https://x'' ''hello'',
                           ItemError (Some ''b'') ''bad://'' ''net::ERR_ABORTED''])))
            False)"
  by (simp add: handleToolCall_def defaultSession_def puppeteer_parallel_sessions_def
        parallel_item_def createNewBrowserSession_def try_catch_def issue_def
        single_connection_env_def sample_env_def two_items_args_def sample_args_def
        initial_state_def Let_def)

end
